theory Spec2Isabelle
  imports Main "HOL-Library.Word"
begin

unbundle bit_operations_syntax

section \<open>The framing layer: \<open>deFramer\<close> and the header written by \<open>Transport.send\<close>\<close>

text \<open>
  A chunk is a Node buffer: a sequence of bytes. The closure returned by
  \<open>deFramer(onFrame)\<close> owns four variables, \<open>buffer\<close>, \<open>state\<close>, \<open>length\<close> and
  \<open>offset\<close>. They are the fields of the record below (\<open>length\<close> is called \<open>len\<close>).

  \<open>length\<close> is only ever written by \<open>length |= chunk[i] << s\<close> and \<open>length = 0\<close>.
  JavaScript's \<open>|\<close> and \<open><<\<close> yield a 32-bit two's complement integer, so the
  variable is a 32-bit word whose value, as the program sees it, is \<open>sint\<close>.
  \<open>buffer\<close> and \<open>offset\<close> are \<open>undefined\<close> between frames: \<open>None\<close>.
\<close>

type_synonym byte = "8 word"

record deframer =
  buffer :: "byte list option"
  state :: nat
  len :: "32 word"
  offset :: "nat option"

text \<open>The variables as \<open>deFramer\<close> initialises them.\<close>

definition deFramer :: deframer where
  "deFramer = \<lparr>buffer = None, state = 0, len = 0, offset = None\<rparr>"

text \<open>
  What stops \<open>parse\<close>. \<open>new Buffer(length)\<close> with a negative \<open>length\<close> is where the
  model ends: what the platform's Buffer does with a negative size (an exception
  in current Node, a buffer of size 0 in old ones) is not part of this
  repository; the model takes the exception. \<open>chunk.copy(undefined, \<dots>)\<close> raises a
  TypeError.

  An exception leaves the variables of the closure as they are at that point: a
  later call of \<open>parse\<close> starts from them. In \<open>case 3\<close> the assignments to \<open>length\<close> and
  \<open>state\<close> come before \<open>new Buffer(length)\<close>, so after that exception the state is
  4 with \<open>buffer\<close> and \<open>offset\<close> as they were, \<open>undefined\<close>: every later chunk raises
  in \<open>chunk.copy\<close>. In \<open>case 4\<close> a negative number of bytes to copy cannot arise from
  the variables \<open>deFramer\<close> starts with (\<open>offset\<close> never exceeds \<open>length\<close>); the model
  stops there as well.
\<close>

datatype framer_error = NegativeLength | CopyTypeError

text \<open>
  \<open>chunk.copy(buffer, offset, i, i + len)\<close>: the \<open>n\<close> bytes at the head of the rest
  of the chunk overwrite \<open>buffer\<close> from position \<open>off\<close>.
\<close>

definition copy_into :: "byte list \<Rightarrow> nat \<Rightarrow> byte list \<Rightarrow> nat \<Rightarrow> byte list" where
  "copy_into buf off rest n =
     take off buf @ take (length buf - off) (take n rest) @ drop (off + n) buf"

text \<open>
  The \<open>for\<close> loop of \<open>parse\<close>, on the part of the chunk from index \<open>i\<close> on. The
  result is the list of frames handed to \<open>onFrame\<close>, in order, and the variables
  at the end of the loop (\<open>Inr\<close>), or what stopped it with the variables at that
  point (\<open>Inl\<close>).

  In state 4 the loop body ends with \<open>i += len - 1\<close> and the loop header adds 1:
  the next byte looked at is \<open>len\<close> bytes further. When \<open>len\<close> is 0 that is the
  same byte again, now in state 0.
\<close>

function parse_loop ::
  "deframer \<Rightarrow> byte list \<Rightarrow> byte list list \<times> (framer_error \<times> deframer + deframer)" where
  "parse_loop d [] = ([], Inr d)"
| "parse_loop d (b # bs) =
     (if state d = 0 then
        parse_loop (d\<lparr>len := len d OR push_bit 24 (ucast b), state := 1\<rparr>) bs
      else if state d = 1 then
        parse_loop (d\<lparr>len := len d OR push_bit 16 (ucast b), state := 2\<rparr>) bs
      else if state d = 2 then
        parse_loop (d\<lparr>len := len d OR push_bit 8 (ucast b), state := 3\<rparr>) bs
      else if state d = 3 then
        (let l = len d OR ucast b in
         if sint l < 0 then ([], Inl (NegativeLength, d\<lparr>len := l, state := 4\<rparr>))
         else parse_loop (d\<lparr>len := l, state := 4,
                buffer := Some (replicate (nat (sint l)) 0), offset := Some 0\<rparr>) bs)
      else if state d = 4 then
        (case (buffer d, offset d) of
           (Some buf, Some off) \<Rightarrow>
             (let n = length (b # bs);
                  emit = (int n + int off \<ge> sint (len d));
                  n' = (if emit then sint (len d) - int off else int n)
              in if n' < 0 then ([], Inl (NegativeLength, d))
                 else
                   let buf' = copy_into buf off (b # bs) (nat n');
                       off' = off + nat n'
                   in if emit then
                        (let (frames, r) =
                           parse_loop (d\<lparr>state := 0, len := 0, buffer := None, offset := None\<rparr>)
                             (drop (nat n') (b # bs))
                         in (buf' # frames, r))
                      else
                        parse_loop (d\<lparr>buffer := Some buf', offset := Some off'\<rparr>)
                          (drop (nat n') (b # bs)))
         | _ \<Rightarrow> ([], Inl (CopyTypeError, d)))
      else parse_loop d bs)"
  by pat_completeness auto
termination
  by (relation "measure (\<lambda>(d, c). 2 * length c + (if state d = 4 then 1 else 0))")
     (auto split: if_splits)

text \<open>
  One call of the closure \<open>parse(chunk)\<close> per chunk, in order, by a caller that
  does not catch: the first exception ends the run.
\<close>

fun feed :: "deframer \<Rightarrow> byte list list \<Rightarrow> byte list list \<times> (framer_error \<times> deframer + deframer)" where
  "feed d [] = ([], Inr d)"
| "feed d (c # cs) =
     (case parse_loop d c of
        (frames, Inl e) \<Rightarrow> (frames, Inl e)
      | (frames, Inr d') \<Rightarrow> (let (frames', r) = feed d' cs in (frames @ frames', r)))"

text \<open>
  The sending side, from \<open>Transport.prototype.send\<close>: a 4-byte header written by
  \<open>header.writeUInt32BE(frame.length, 0)\<close>, then the frame.
\<close>

definition writeUInt32BE :: "32 word \<Rightarrow> byte list" where
  "writeUInt32BE w = [ucast (drop_bit 24 w), ucast (drop_bit 16 w), ucast (drop_bit 8 w), ucast w]"

definition framed :: "byte list \<Rightarrow> byte list" where
  "framed frame = writeUInt32BE (of_nat (length frame)) @ frame"

section \<open>The Transport\<close>

text \<open>
  A Transport sits on two stream objects, \<open>input\<close> and \<open>output\<close>, which may be the
  same object. What the constructor and its handlers do to a stream is to add and
  remove listeners and to call \<open>destroy()\<close>; the streams live in a store indexed by
  their identity, so that one stream serving as both ends is one entry.

  The four local functions of the constructor are the handlers. A listener is an
  event name with a handler.
\<close>

datatype handler = onData | onDisconnect | onError | onDrain

record stream =
  readable :: bool
  writable :: bool
  listeners :: "(string \<times> handler) list"
  destroyed :: bool

text \<open>
  What a Transport emits is recorded in order: the event's name and its argument.
  \<open>'m\<close> is a decoded message, \<open>'x\<close> an error object that comes from outside (a stream,
  \<open>msgpack.decode\<close>). \<open>EDISCONNECT\<close> is the error object built in \<open>onDisconnect\<close>, whose
  \<open>code\<close> is \<open>"EDISCONNECT"\<close>.
\<close>

datatype 'x terror = EDISCONNECT | External 'x | Framer framer_error

datatype ('m, 'x) targ = Message 'm | Err "'x terror" | NoArg

record ('m, 'x) transport =
  t_input :: nat
  t_output :: nat
  t_streams :: "nat \<Rightarrow> stream"
  t_parse :: deframer
  t_emitted :: "(string \<times> ('m, 'x) targ) list"

definition t_emit :: "string \<Rightarrow> ('m, 'x) targ \<Rightarrow> ('m, 'x) transport \<Rightarrow> ('m, 'x) transport" where
  "t_emit name a t = t\<lparr>t_emitted := t_emitted t @ [(name, a)]\<rparr>"


definition stream_removeListener :: "nat \<Rightarrow> string \<Rightarrow> handler \<Rightarrow> ('m, 'x) transport \<Rightarrow> ('m, 'x) transport" where
  "stream_removeListener s name h t =
     t\<lparr>t_streams := (t_streams t)(s := (t_streams t s)\<lparr>listeners := remove1 (name, h) (listeners (t_streams t s))\<rparr>)\<rparr>"

definition stream_destroy :: "nat \<Rightarrow> ('m, 'x) transport \<Rightarrow> ('m, 'x) transport" where
  "stream_destroy s t = t\<lparr>t_streams := (t_streams t)(s := (t_streams t s)\<lparr>destroyed := True\<rparr>)\<rparr>"



text \<open>
  The callback given to \<open>deFramer\<close>: decode the frame, emit \<open>message\<close>, or \<open>error\<close> when
  \<open>msgpack.decode\<close> raises. \<open>decode\<close> is the external deserialiser. The listeners of
  the Transport's own events are not part of the Transport: an emit is recorded
  and taken to return.
\<close>

definition onFrame ::
  "(byte list \<Rightarrow> 'x + 'm) \<Rightarrow> byte list \<Rightarrow> ('m, 'x) transport \<Rightarrow> ('m, 'x) transport" where
  "onFrame decode frame t =
     (case decode frame of
        Inl err \<Rightarrow> t_emit ''error'' (Err (External err)) t
      | Inr message \<Rightarrow> t_emit ''message'' (Message message) t)"

text \<open>What a stream hands to its listeners: a chunk with \<open>data\<close>, an error with \<open>error\<close>.\<close>

datatype 'x sarg = Chunk "byte list" | SErr 'x | SNone

fun run_handler ::
  "(byte list \<Rightarrow> 'x + 'm) \<Rightarrow> handler \<Rightarrow> 'x sarg \<Rightarrow> ('m, 'x) transport \<Rightarrow> ('m, 'x) transport" where
  "run_handler decode onData a t =
     (case parse_loop (t_parse t) (case a of Chunk c \<Rightarrow> c | _ \<Rightarrow> []) of
        (frames, r) \<Rightarrow>
          (let t = foldl (\<lambda>t f. onFrame decode f t) t frames
           in case r of
                Inr d \<Rightarrow> t\<lparr>t_parse := d\<rparr>
              | Inl (e, d) \<Rightarrow> t_emit ''error'' (Err (Framer e)) (t\<lparr>t_parse := d\<rparr>)))"
| "run_handler decode onDrain a t = t_emit ''drain'' NoArg t"
| "run_handler decode onError a t =
     (case a of SErr err \<Rightarrow> t_emit ''error'' (Err (External err)) t
              | _ \<Rightarrow> t_emit ''error'' NoArg t)"
| "run_handler decode onDisconnect a t =
     (let inp = t_input t; outp = t_output t;
          t = stream_removeListener inp ''data'' onData t;
          t = stream_removeListener inp ''end'' onDisconnect t;
          t = stream_removeListener inp ''timeout'' onDisconnect t;
          t = stream_removeListener inp ''close'' onDisconnect t;
          t = stream_removeListener outp ''drain'' onDrain t;
          t = stream_destroy inp t;
          t = (if inp \<noteq> outp then
                 stream_destroy outp
                   (stream_removeListener outp ''close'' onDisconnect
                     (stream_removeListener outp ''timeout'' onDisconnect
                       (stream_removeListener outp ''end'' onDisconnect t)))
               else t)
      in t_emit ''error'' (Err EDISCONNECT) t)"

text \<open>
  Stream \<open>s\<close> emits event \<open>name\<close>: the listeners this Transport has on \<open>s\<close> for \<open>name\<close>
  at that moment run in the order they were added.
\<close>

definition stream_emit ::
  "(byte list \<Rightarrow> 'x + 'm) \<Rightarrow> nat \<Rightarrow> string \<Rightarrow> 'x sarg \<Rightarrow> ('m, 'x) transport \<Rightarrow> ('m, 'x) transport" where
  "stream_emit decode s name a t =
     foldl (\<lambda>t h. run_handler decode h a t) t
       (map snd (filter (\<lambda>l. fst l = name) (listeners (t_streams t s))))"

text \<open>A run of stream events, each a stream, an event name and an argument.\<close>

fun stream_events ::
  "(byte list \<Rightarrow> 'x + 'm) \<Rightarrow> (nat \<times> string \<times> 'x sarg) list \<Rightarrow> ('m, 'x) transport \<Rightarrow> ('m, 'x) transport" where
  "stream_events decode [] t = t"
| "stream_events decode ((s, name, a) # evs) t =
     stream_events decode evs (stream_emit decode s name a t)"

section \<open>Values\<close>

text \<open>
  A wire value is what \<open>msgpack.decode\<close> yields and what \<open>freeze\<close> builds: a tree.
  Numbers are the integers (a number that is not an integer is passed through by
  every function here like any other primitive, and is left out). An object is
  the list of its own enumerable properties in the order \<open>Object.keys\<close> gives them.
\<close>

datatype wire =
    WUndef | WNull | WBool bool | WNum int | WStr string | WBuf "byte list"
  | WArr "wire list" | WObj "(string \<times> wire) list"

text \<open>
  The function values of the program. An application function is opaque and is
  known by a number. \<open>OnReady\<close> is \<open>this._onReady\<close>, bound in the constructor of the
  Remote. \<open>ApiProxy name\<close> is the closure \<open>_onReady\<close> stores in \<open>self.api[name]\<close>.
  \<open>HandleProxy tag transport key\<close> is the closure \<open>_getFunction(key)\<close> returns: it
  has captured \<open>this.transport\<close> (\<open>None\<close> when that was \<open>undefined\<close>) and \<open>key\<close>; each call
  of \<open>_getFunction\<close> creates a new function object, told apart by \<open>tag\<close>.
\<close>

datatype proc = AppFn nat | OnReady | ApiProxy string | HandleProxy nat "nat option" wire

text \<open>
  A live value is a primitive, a byte blob, an Error object (its \<open>code\<close>, when it has
  one, and its message), a function, or a reference to an array or object on the
  heap. Two references are the same node when they are the same address.
  An Error object carries no identity here: two Error objects with the same code
  and message are one value. Where the program compares Error objects by
  identity (\<open>seen.indexOf\<close> in \<open>freeze\<close>) and the contents are equal, the model stops.
\<close>

datatype val =
    VUndef | VNull | VBool bool | VNum int | VStr string | VBuf "byte list"
  | VErr "string option" string | VFun proc | VRef nat

datatype node = NArr "val list" | NObj "(string \<times> val) list"

type_synonym heap = "node list"

text \<open>
  What a call can raise. \<open>Unmodelled\<close> is not an outcome of the program: the model
  stops there, at behaviour of JavaScript it does not describe (a property named
  \<open>__proto__\<close>, a built-in inherited from a prototype that is called or returned, a
  conversion of an object to a property name).
\<close>

datatype exn = TypeError | RanOutOfKeys | Unmodelled

text \<open>A property name, or a path component: a string or an array index.\<close>

datatype key = Name string | Index nat

subsection \<open>Own properties in the order of \<open>Object.keys\<close>\<close>

text \<open>
  \<open>Object.keys\<close> lists the names that are array indices (canonical decimal numerals
  below \<open>2^32 - 1\<close>) first, in ascending order, then the other names in the order
  they were added. \<open>set_prop\<close> is the assignment \<open>obj[k] = v\<close>.
\<close>

definition digit :: "char \<Rightarrow> nat option" where
  "digit c = (let n = (of_char c :: nat) in if 48 \<le> n \<and> n \<le> 57 then Some (n - 48) else None)"

definition array_index :: "string \<Rightarrow> nat option" where
  "array_index s =
     (if s \<noteq> [] \<and> list_all (\<lambda>c. digit c \<noteq> None) s \<and> (s = ''0'' \<or> hd s \<noteq> CHR ''0'')
      then (let n = foldl (\<lambda>n c. 10 * n + the (digit c)) 0 s
            in if n < 4294967295 then Some n else None)
      else None)"

fun insert_index :: "nat \<Rightarrow> string \<Rightarrow> 'v \<Rightarrow> (string \<times> 'v) list \<Rightarrow> (string \<times> 'v) list" where
  "insert_index i k v [] = [(k, v)]"
| "insert_index i k v ((k', v') # kvs) =
     (case array_index k' of
        Some j \<Rightarrow> if j < i then (k', v') # insert_index i k v kvs else (k, v) # (k', v') # kvs
      | None \<Rightarrow> (k, v) # (k', v') # kvs)"

definition set_prop :: "string \<Rightarrow> 'v \<Rightarrow> (string \<times> 'v) list \<Rightarrow> (string \<times> 'v) list" where
  "set_prop k v kvs =
     (if k \<in> fst ` set kvs then map (\<lambda>(k', v'). if k' = k then (k', v) else (k', v')) kvs
      else case array_index k of
             None \<Rightarrow> kvs @ [(k, v)]
           | Some i \<Rightarrow> insert_index i k v kvs)"

text \<open>
  Reading an own property; \<open>undefined\<close> when there is none. The names every object
  inherits from \<open>Object.prototype\<close> are listed: where the program reads one of them
  from an object that has no own property of that name, the model stops.
\<close>

definition own :: "(string \<times> val) list \<Rightarrow> string \<Rightarrow> val" where
  "own kvs k = (case map_of kvs k of None \<Rightarrow> VUndef | Some v \<Rightarrow> v)"

definition object_prototype :: "string list" where
  "object_prototype =
     [''constructor'', ''toString'', ''toLocaleString'', ''valueOf'', ''hasOwnProperty'',
      ''isPrototypeOf'', ''propertyIsEnumerable'', ''__proto__'', ''__defineGetter__'',
      ''__defineSetter__'', ''__lookupGetter__'', ''__lookupSetter__'']"

definition is_function :: "val \<Rightarrow> bool" where
  "is_function v = (case v of VFun p \<Rightarrow> True | _ \<Rightarrow> False)"

text \<open>JavaScript's truthiness, for \<open>if (o)\<close>, \<open>err || \<dots>\<close> and \<open>!cerr\<close>.\<close>

definition truthy :: "val \<Rightarrow> bool" where
  "truthy v =
     (case v of VUndef \<Rightarrow> False | VNull \<Rightarrow> False | VBool b \<Rightarrow> b | VNum n \<Rightarrow> n \<noteq> 0
              | VStr s \<Rightarrow> s \<noteq> [] | _ \<Rightarrow> True)"

section \<open>\<open>freeze\<close>\<close>

text \<open>
  \<open>getType\<close>, as far as \<open>freeze\<close> and \<open>liven\<close> use it: a primitive (passed through as it
  is), a function, an array or an object. An Error object is an object whose only
  own enumerable property is \<open>code\<close>, when it was given one. A reference outside
  the heap has no counterpart in the program.
\<close>

datatype kind =
    Primitive wire | IsFunction | IsArray "val list" | IsObject "(string \<times> val) list"
  | IsError "string option" | Dangling

definition getType :: "heap \<Rightarrow> val \<Rightarrow> kind" where
  "getType h v =
     (case v of
        VUndef \<Rightarrow> Primitive WUndef
      | VNull \<Rightarrow> Primitive WNull
      | VBool b \<Rightarrow> Primitive (WBool b)
      | VNum n \<Rightarrow> Primitive (WNum n)
      | VStr s \<Rightarrow> Primitive (WStr s)
      | VBuf b \<Rightarrow> Primitive (WBuf b)
      | VErr c m \<Rightarrow> IsError c
      | VFun p \<Rightarrow> IsFunction
      | VRef a \<Rightarrow> (if a < length h then (case h ! a of NArr xs \<Rightarrow> IsArray xs | NObj kvs \<Rightarrow> IsObject kvs)
                   else Dangling))"

text \<open>\<open>seen.indexOf(value)\<close>: the first position, \<open>None\<close> for \<open>-1\<close>.\<close>

fun indexOf :: "'a list \<Rightarrow> 'a \<Rightarrow> nat option" where
  "indexOf [] x = None"
| "indexOf (y # ys) x = (if y = x then Some 0 else map_option Suc (indexOf ys x))"

text \<open>
  The two arrays \<open>seen\<close> and \<open>paths\<close> of one call of \<open>freeze\<close>, and the state \<open>store\<close> that
  \<open>storeFunction\<close> works on.
\<close>

record 's freezing =
  seen :: "val list"
  paths :: "key list list"
  store :: 's

definition key_wire :: "key \<Rightarrow> wire" where
  "key_wire k = (case k of Name s \<Rightarrow> WStr s | Index i \<Rightarrow> WNum (int i))"

text \<open>The key map of \<open>freeze\<close>: \<open>key[0] === "$" ? "$" + key : key\<close>.\<close>

definition escape :: "string \<Rightarrow> string" where
  "escape k = (if k \<noteq> [] \<and> hd k = CHR ''$'' then CHR ''$'' # k else k)"

text \<open>
  The local function \<open>find\<close> of \<open>freeze\<close>, and the callback it gives to \<open>map\<close>, run over
  the elements of an array (with their indices) or the own properties of an
  object. \<open>storeFunction\<close> returns the key, or raises; either way it leaves a state.
  When it returns 0, \<open>if (o)\<close> fails and \<open>map\<close> runs on the function itself, which has
  no own enumerable property: the result is \<open>{}\<close>.

  \<open>map\<close> on an object calls \<open>value.map\<close> when that is a function, and assigns the
  results by name: the model stops at an own property \<open>map\<close> that is a function and at
  an own property \<open>__proto__\<close>.

  \<open>seen.indexOf(value)\<close> compares objects by identity. For functions, arrays and
  objects that is equality of the values here. An Error equal in code and message
  to one in \<open>seen\<close> is that object (a back-reference) or another one (frozen as its
  own object): the model stops.
\<close>

function (sequential)
  freeze_find :: "(val \<Rightarrow> 's \<Rightarrow> (exn + int) \<times> 's) \<Rightarrow> heap \<Rightarrow> val \<Rightarrow> key list \<Rightarrow> 's freezing
            \<Rightarrow> (exn + wire) \<times> 's freezing"
and freeze_map :: "(val \<Rightarrow> 's \<Rightarrow> (exn + int) \<times> 's) \<Rightarrow> heap \<Rightarrow> (key \<times> val) list \<Rightarrow> key list \<Rightarrow> 's freezing
            \<Rightarrow> (exn + wire list) \<times> 's freezing"
where
  "freeze_find storeFunction h v path st =
     (case getType h v of
        Primitive w \<Rightarrow> (Inr w, st)
      | Dangling \<Rightarrow> (Inl Unmodelled, st)
      | ty \<Rightarrow>
         (case indexOf (seen st) v of
            Some index \<Rightarrow>
              (case ty of
                 IsError c \<Rightarrow> (Inl Unmodelled, st)
               | _ \<Rightarrow> (Inr (WObj [(''$'', WArr (map key_wire (paths st ! index)))]), st))
          | None \<Rightarrow>
             (let st = st\<lparr>seen := seen st @ [v], paths := paths st @ [path]\<rparr> in
              case ty of
                IsFunction \<Rightarrow>
                  (case storeFunction v (store st) of
                     (Inl e, s') \<Rightarrow> (Inl e, st\<lparr>store := s'\<rparr>)
                   | (Inr o', s') \<Rightarrow>
                       (if o' \<noteq> 0 then (Inr (WObj [(''$'', WNum o')]), st\<lparr>store := s'\<rparr>)
                        else (Inr (WObj []), st\<lparr>store := s'\<rparr>)))
              | IsError c \<Rightarrow>
                  (Inr (WObj (case c of None \<Rightarrow> [] | Some c \<Rightarrow> [(''code'', WStr c)])), st)
              | IsArray xs \<Rightarrow>
                  (case freeze_map storeFunction h (zip (map Index [0..<length xs]) xs) path st of
                     (Inl e, st') \<Rightarrow> (Inl e, st')
                   | (Inr ws, st') \<Rightarrow> (Inr (WArr ws), st'))
              | IsObject kvs \<Rightarrow>
                  (if is_function (own kvs ''map'') \<or> ''__proto__'' \<in> fst ` set kvs
                   then (Inl Unmodelled, st)
                   else
                     (case freeze_map storeFunction h (map (\<lambda>(k, x). (Name k, x)) kvs) path st of
                        (Inl e, st') \<Rightarrow> (Inl e, st')
                      | (Inr ws, st') \<Rightarrow>
                          (Inr (WObj (foldl (\<lambda>obj (k, w). set_prop (escape k) w obj) []
                                  (zip (map fst kvs) ws))), st'))))))"
| "freeze_map storeFunction h [] path st = (Inr [], st)"
| "freeze_map storeFunction h ((k, x) # rest) path st =
     (case freeze_find storeFunction h x (path @ [k]) st of
        (Inl e, st') \<Rightarrow> (Inl e, st')
      | (Inr w, st') \<Rightarrow>
          (case freeze_map storeFunction h rest path st' of
             (Inl e, st'') \<Rightarrow> (Inl e, st'')
           | (Inr ws, st'') \<Rightarrow> (Inr (w # ws), st'')))"
  by pat_completeness auto

text \<open>
  Termination: every array or object \<open>find\<close> descends into is new to \<open>seen\<close>, and the
  heap has finitely many. \<open>unseen\<close> counts those not yet in \<open>seen\<close>.
\<close>

definition unseen :: "heap \<Rightarrow> val list \<Rightarrow> nat" where
  "unseen h sn = card ({a. a < length h} - {a. VRef a \<in> set sn})"

lemma indexOf_None: "indexOf xs x = None \<longleftrightarrow> x \<notin> set xs"
  by (induction xs) auto

lemma unseen_mono: "set sn \<subseteq> set sn' \<Longrightarrow> unseen h sn' \<le> unseen h sn"
  unfolding unseen_def by (rule card_mono) auto

lemma getType_ref:
  assumes "getType h v = IsArray xs \<or> getType h v = IsObject kvs"
  obtains a where "v = VRef a" "a < length h"
  using assms by (auto simp: getType_def split: val.splits if_splits)

lemma unseen_less:
  assumes "getType h v = IsArray xs \<or> getType h v = IsObject kvs" and "indexOf sn v = None"
  shows "unseen h (sn @ [v]) < unseen h sn"
proof -
  from assms(1) obtain a where v: "v = VRef a" and a: "a < length h" by (rule getType_ref)
  from assms(2) have "VRef a \<notin> set sn" by (simp add: indexOf_None v)
  with a have "{a. a < length h} - {a. VRef a \<in> set (sn @ [v])} \<subset> {a. a < length h} - {a. VRef a \<in> set sn}"
    by (auto simp: v)
  then show ?thesis unfolding unseen_def by (intro psubset_card_mono) auto
qed

lemma freeze_find_seen_mono:
  "freeze_find_freeze_map_dom (Inl (sf, h, v, path, st)) \<Longrightarrow>
     set (seen st) \<subseteq> set (seen (snd (freeze_find sf h v path st)))"
  "freeze_find_freeze_map_dom (Inr (sf, h, kids, path, st)) \<Longrightarrow>
     set (seen st) \<subseteq> set (seen (snd (freeze_map sf h kids path st)))"
proof (induction sf h v path st and sf h kids path st rule: freeze_find_freeze_map.pinduct)
  case (1 sf h v path st)
  note eq = freeze_find.psimps [OF "1.hyps"]
  let ?st1 = "st\<lparr>seen := seen st @ [v], paths := paths st @ [path]\<rparr>"
  show ?case
  proof (cases "indexOf (seen st) v")
    case (Some i)
    with eq show ?thesis by (auto split: kind.splits)
  next
    case None
    show ?thesis
    proof (cases "getType h v")
      case (Primitive w0) with eq show ?thesis by simp
    next
      case Dangling with eq show ?thesis by simp
    next
      case (IsError c) with eq None show ?thesis by (auto simp: Let_def)
    next
      case IsFunction
      with eq None show ?thesis by (auto simp: Let_def split: sum.splits prod.splits if_splits)
    next
      case (IsArray xs)
      from "1.IH"(3) [OF IsArray None refl refl]
      have "set (seen ?st1) \<subseteq> set (seen (snd (freeze_map sf h (zip (map Index [0..<length xs]) xs) path ?st1)))" .
      with eq None IsArray show ?thesis by (auto simp: Let_def split: sum.splits prod.splits)
    next
      case (IsObject kvs)
      show ?thesis
      proof (cases "is_function (own kvs ''map'') \<or> ''__proto__'' \<in> fst ` set kvs")
        case True
        with eq None IsObject show ?thesis by (auto simp: Let_def)
      next
        case False
        from "1.IH"(6) [OF IsObject None refl refl False]
        have "set (seen ?st1) \<subseteq> set (seen (snd (freeze_map sf h (map (\<lambda>(k, y). (Name k, y)) kvs) path ?st1)))" .
        with eq None IsObject False show ?thesis by (auto simp: Let_def split: sum.splits prod.splits)
      qed
    qed
  qed
next
  case (2 sf h path st)
  then show ?case by (simp add: freeze_map.psimps)
next
  case (3 sf h k x rest path st)
  note eq = freeze_map.psimps(2) [OF "3.hyps"]
  show ?case
  proof (cases "freeze_find sf h x (path @ [k]) st")
    case (Pair r st1)
    note a = "3.IH"(1)
    show ?thesis
    proof (cases r)
      case (Inl e) with eq Pair a show ?thesis by simp
    next
      case (Inr w)
      from "3.IH"(2) [OF Pair [symmetric] Inr]
      have "set (seen st1) \<subseteq> set (seen (snd (freeze_map sf h rest path st1)))" .
      with eq Pair Inr a show ?thesis by (auto split: sum.splits prod.splits)
    qed
  qed
qed

lemma freeze_find_unseen:
  "freeze_find_freeze_map_dom (Inl (sf, h, v, path, st)) \<Longrightarrow> (r, st') = freeze_find sf h v path st
     \<Longrightarrow> unseen h (seen st') \<le> unseen h (seen st)"
proof -
  assume dom: "freeze_find_freeze_map_dom (Inl (sf, h, v, path, st))"
    and eq: "(r, st') = freeze_find sf h v path st"
  from eq have "st' = snd (freeze_find sf h v path st)" by (metis snd_conv)
  with freeze_find_seen_mono(1) [OF dom] have "set (seen st) \<subseteq> set (seen st')" by simp
  then show ?thesis by (rule unseen_mono)
qed

termination freeze_find
proof (relation "measures
    [\<lambda>x. case x of Inl (sf, h, v, path, st) \<Rightarrow> unseen h (seen st)
                | Inr (sf, h, kids, path, st) \<Rightarrow> unseen h (seen st),
     \<lambda>x. case x of Inl _ \<Rightarrow> 0 | Inr (sf, h, kids, path, st) \<Rightarrow> Suc (length kids)]")
qed (auto simp: unseen_less [OF disjI1] unseen_less [OF disjI2] dest!: freeze_find_unseen)

text \<open>\<open>freeze(value, storeFunction)\<close>, on the heap \<open>h\<close> and from the state \<open>s\<close>.\<close>

definition freeze :: "(val \<Rightarrow> 's \<Rightarrow> (exn + int) \<times> 's) \<Rightarrow> heap \<Rightarrow> val \<Rightarrow> 's \<Rightarrow> (exn + wire) \<times> 's" where
  "freeze storeFunction h v s =
     (case freeze_find storeFunction h v [] \<lparr>seen = [], paths = [], store = s\<rparr> of
        (r, st) \<Rightarrow> (r, store st))"

section \<open>\<open>liven\<close>\<close>

text \<open>
  \<open>liven\<close> builds new arrays and objects: the heap grows. \<open>obj\<close>, the holder of the
  result, is kept apart from the heap: \<open>root\<close> is \<open>obj.root\<close>, \<open>None\<close> while it has not been
  assigned. \<open>getter\<close> is the state \<open>getFunction\<close> works on.
\<close>

record 's livening =
  lheap :: heap
  root :: "val option"
  getter :: 's

text \<open>The \<open>parent\<close> argument of \<open>find\<close>: the holder \<open>obj\<close>, or a node under construction.\<close>

datatype parent = Holder | Node nat

text \<open>\<open>if (key[0] === "$") key = key.substr(1)\<close>; an array index has no \<open>key[0]\<close>.\<close>

definition unescape :: "key \<Rightarrow> key" where
  "unescape key =
     (case key of
        Name k \<Rightarrow> if k \<noteq> [] \<and> hd k = CHR ''$'' then Name (tl k) else Name k
      | Index i \<Rightarrow> Index i)"

text \<open>
  \<open>parent[key] = v\<close>. \<open>find\<close> fills an array in the order of its indices, so the index
  is the length of the array so far; the holder is only ever assigned \<open>root\<close>.
\<close>

definition assign :: "parent \<Rightarrow> key \<Rightarrow> val \<Rightarrow> 's livening \<Rightarrow> (exn + unit) \<times> 's livening" where
  "assign parent key v st =
     (case parent of
        Holder \<Rightarrow> (if key = Name ''root'' then (Inr (), st\<lparr>root := Some v\<rparr>) else (Inl Unmodelled, st))
      | Node a \<Rightarrow>
          (if a < length (lheap st) then
             (case (lheap st ! a, key) of
                (NArr xs, Index i) \<Rightarrow>
                  (if i < length xs then (Inr (), st\<lparr>lheap := (lheap st)[a := NArr (xs[i := v])]\<rparr>)
                   else if i = length xs then (Inr (), st\<lparr>lheap := (lheap st)[a := NArr (xs @ [v])]\<rparr>)
                   else (Inl Unmodelled, st))
              | (NObj kvs, Name k) \<Rightarrow>
                  (if k = ''__proto__'' then (Inl Unmodelled, st)
                   else (Inr (), st\<lparr>lheap := (lheap st)[a := NObj (set_prop k v kvs)]\<rparr>))
              | _ \<Rightarrow> (Inl Unmodelled, st))
           else (Inl Unmodelled, st)))"

text \<open>
  \<open>target[p]\<close> for one path component, and \<open>get(root, path)\<close>. Reading a property of
  \<open>undefined\<close> or \<open>null\<close> raises a TypeError. The model follows own string-named
  properties of objects and the elements of arrays, and stops elsewhere.
\<close>

definition get_prop :: "heap \<Rightarrow> val \<Rightarrow> wire \<Rightarrow> exn + val" where
  "get_prop h target p =
     (case target of
        VUndef \<Rightarrow> Inl TypeError
      | VNull \<Rightarrow> Inl TypeError
      | VRef a \<Rightarrow>
          (if a < length h then
             (case (h ! a, p) of
                (NObj kvs, WStr k) \<Rightarrow>
                  (if k \<in> fst ` set kvs then Inr (own kvs k)
                   else if k \<in> set object_prototype then Inl Unmodelled
                   else Inr VUndef)
              | (NArr xs, WNum i) \<Rightarrow> Inr (if 0 \<le> i \<and> nat i < length xs then xs ! nat i else VUndef)
              | _ \<Rightarrow> Inl Unmodelled)
           else Inl Unmodelled)
      | _ \<Rightarrow> Inl Unmodelled)"

fun get :: "heap \<Rightarrow> val \<Rightarrow> wire list \<Rightarrow> exn + val" where
  "get h target [] = Inr target"
| "get h target (p # path) =
     (case get_prop h target p of
        Inl e \<Rightarrow> Inl e
      | Inr target' \<Rightarrow> get h target' path)"

definition alloc :: "node \<Rightarrow> 's livening \<Rightarrow> nat \<times> 's livening" where
  "alloc n st = (length (lheap st), st\<lparr>lheap := lheap st @ [n]\<rparr>)"

text \<open>
  The local function \<open>find\<close> of \<open>liven\<close>, and the callback it gives to \<open>forEach\<close>, over the
  elements of an array and over the own properties of an object. Its return
  value is used by no caller and is left out.

  \<open>value.hasOwnProperty("$")\<close> is a method call on \<open>value\<close>: when \<open>value\<close> has an own
  property named \<open>hasOwnProperty\<close>, that property is what is called, and a wire value
  is never a function.
\<close>

fun liven_find :: "(wire \<Rightarrow> 's \<Rightarrow> val \<times> 's) \<Rightarrow> wire \<Rightarrow> parent \<Rightarrow> key \<Rightarrow> 's livening
                     \<Rightarrow> (exn + unit) \<times> 's livening"
and liven_elements :: "(wire \<Rightarrow> 's \<Rightarrow> val \<times> 's) \<Rightarrow> wire list \<Rightarrow> nat \<Rightarrow> nat \<Rightarrow> 's livening
                     \<Rightarrow> (exn + unit) \<times> 's livening"
and liven_properties :: "(wire \<Rightarrow> 's \<Rightarrow> val \<times> 's) \<Rightarrow> (string \<times> wire) list \<Rightarrow> nat \<Rightarrow> 's livening
                     \<Rightarrow> (exn + unit) \<times> 's livening"
where
  "liven_find getFunction (WArr xs) parent key st =
     (let (o', st) = alloc (NArr []) st in
      case assign parent (unescape key) (VRef o') st of
        (Inl e, st) \<Rightarrow> (Inl e, st)
      | (Inr u, st) \<Rightarrow> liven_elements getFunction xs o' 0 st)"
| "liven_find getFunction (WObj kvs) parent key st =
     (if ''hasOwnProperty'' \<in> fst ` set kvs then (Inl TypeError, st)
      else case map_of kvs ''$'' of
        Some (WArr special) \<Rightarrow>
          (case get (lheap st) (case root st of None \<Rightarrow> VUndef | Some r \<Rightarrow> r) special of
             Inl e \<Rightarrow> (Inl e, st)
           | Inr target \<Rightarrow> assign parent (unescape key) target st)
      | Some special \<Rightarrow>
          (let (f, g) = getFunction special (getter st)
           in assign parent (unescape key) f (st\<lparr>getter := g\<rparr>))
      | None \<Rightarrow>
          (let (o', st) = alloc (NObj []) st in
           case assign parent (unescape key) (VRef o') st of
             (Inl e, st) \<Rightarrow> (Inl e, st)
           | (Inr u, st) \<Rightarrow> liven_properties getFunction kvs o' st))"
| "liven_find getFunction WUndef parent key st = assign parent (unescape key) VUndef st"
| "liven_find getFunction WNull parent key st = assign parent (unescape key) VNull st"
| "liven_find getFunction (WBool b) parent key st = assign parent (unescape key) (VBool b) st"
| "liven_find getFunction (WNum n) parent key st = assign parent (unescape key) (VNum n) st"
| "liven_find getFunction (WStr s) parent key st = assign parent (unescape key) (VStr s) st"
| "liven_find getFunction (WBuf b) parent key st = assign parent (unescape key) (VBuf b) st"
| "liven_elements getFunction [] o' i st = (Inr (), st)"
| "liven_elements getFunction (sub # subs) o' i st =
     (case liven_find getFunction sub (Node o') (Index i) st of
        (Inl e, st) \<Rightarrow> (Inl e, st)
      | (Inr u, st) \<Rightarrow> liven_elements getFunction subs o' (Suc i) st)"
| "liven_properties getFunction [] o' st = (Inr (), st)"
| "liven_properties getFunction ((key, sub) # subs) o' st =
     (case liven_find getFunction sub (Node o') (Name key) st of
        (Inl e, st) \<Rightarrow> (Inl e, st)
      | (Inr u, st) \<Rightarrow> liven_properties getFunction subs o' st)"

text \<open>
  \<open>liven(message, getFunction)\<close> on the heap \<open>h\<close>, from the state \<open>g\<close> of \<open>getFunction\<close>:
  the value of \<open>obj.root\<close>, the heap and the state afterwards.
\<close>

definition liven :: "(wire \<Rightarrow> 's \<Rightarrow> val \<times> 's) \<Rightarrow> wire \<Rightarrow> heap \<Rightarrow> 's \<Rightarrow> (exn + val) \<times> heap \<times> 's" where
  "liven getFunction message h g =
     (case liven_find getFunction message Holder (Name ''root'') \<lparr>lheap = h, root = None, getter = g\<rparr> of
        (Inl e, st) \<Rightarrow> (Inl e, lheap st, getter st)
      | (Inr u, st) \<Rightarrow> (Inr (case root st of None \<Rightarrow> VUndef | Some r \<Rightarrow> r), lheap st, getter st))"

section \<open>The Remote\<close>

text \<open>
  What a Remote does to the world outside it is recorded in order:
  \<^item> \<open>Emit name args\<close>: \<open>this.emit(name, args\<dots>)\<close> on the Remote;
  \<^item> \<open>Send t message\<close>: \<open>transport.send(message)\<close> on Transport \<open>t\<close>, from \<open>Remote.send\<close>, with
    the frozen message;
  \<^item> \<open>SendRaw t key args\<close>: \<open>transport.send([key, args\<dots>])\<close> on Transport \<open>t\<close>, from a proxy
    made by \<open>_getFunction\<close>, which does not freeze;
  \<^item> \<open>Call n args\<close>: the application function \<open>n\<close> is called with \<open>args\<close>;
  \<^item> \<open>On t name\<close>, \<open>RemoveListener t name\<close>: \<open>transport.on(name, \<dots>)\<close> and
    \<open>transport.removeListener(name, \<dots>)\<close> on Transport \<open>t\<close>.
  An application function and a listener of the Remote's events are outside the
  model: they return normally and do not call into the Remote while they run.
\<close>

datatype effect =
    Emit string "val list"
  | Send nat wire
  | SendRaw nat wire "val list"
  | Call nat "val list"
  | On nat string
  | RemoveListener nat string

text \<open>
  The fields of a Remote, with the registry \<open>this.agent.api\<close> of its Agent. A
  Transport is known by a number. The keys of the callback table come from
  \<open>nextKey = 1\<close>, \<open>(key + 1) >> 0\<close> and \<open>self.nextKey = key\<close> only: they are 32-bit
  integers, and the number the program sees is \<open>sint key\<close>. The table is the list
  of its entries in the order of \<open>Object.keys\<close>; the entry for \<open>key\<close> with \<open>fn\<close> stands for
  the closure \<open>function () { delete callbacks[key]; self.nextKey = key; return
  fn.apply(this, arguments); }\<close> that \<open>_storeFunction\<close> stores. \<open>objects\<close> is the heap,
  \<open>tags\<close> numbers the function objects \<open>_getFunction\<close> creates.
\<close>

record remote =
  agent_api :: "(string \<times> val) list"
  api :: "(string \<times> val) list"
  transport :: "nat option"
  callbacks :: "(32 word \<times> val) list option"
  nextKey :: "32 word option"
  objects :: heap
  tags :: nat
  effects :: "effect list"

text \<open>\<open>new Remote(agent)\<close>, then \<open>new Error(message)\<close> with \<open>err.code = code\<close>.\<close>

definition Remote :: "(string \<times> val) list \<Rightarrow> heap \<Rightarrow> remote" where
  "Remote registry h =
     \<lparr>agent_api = registry, api = [], transport = None, callbacks = None, nextKey = None,
      objects = h, tags = 0, effects = []\<rparr>"

definition EDISCONNECT_Remote :: val where
  "EDISCONNECT_Remote = VErr (Some ''EDISCONNECT'') ''EDISCONNECT: Remote disconnected''"

definition ENOTCONNECTED :: val where
  "ENOTCONNECTED = VErr (Some ''ENOTCONNECTED'') ''ENOTCONNECTED: Remote is offline, try again later''"

definition effect :: "effect \<Rightarrow> remote \<Rightarrow> remote" where
  "effect e st = st\<lparr>effects := effects st @ [e]\<rparr>"

definition emit :: "string \<Rightarrow> val list \<Rightarrow> remote \<Rightarrow> remote" where
  "emit name args st = effect (Emit name args) st"

definition new_array :: "val list \<Rightarrow> remote \<Rightarrow> nat \<times> remote" where
  "new_array xs st = (length (objects st), st\<lparr>objects := objects st @ [NArr xs]\<rparr>)"

subsection \<open>\<open>_storeFunction\<close> and \<open>_getFunction\<close>\<close>

text \<open>
  The \<open>while\<close> loop of \<open>_storeFunction\<close>: \<open>cb\<close> is the table, \<open>nk\<close> is \<open>this.nextKey\<close>.
  \<open>(key + 1) >> 0\<close> is the addition of 32-bit words.
\<close>

function storeFunction_loop :: "(32 word \<times> val) list \<Rightarrow> 32 word \<Rightarrow> 32 word \<Rightarrow> exn + 32 word" where
  "storeFunction_loop cb nk key =
     (if key \<in> fst ` set cb then
        (let key = key + 1 in
         if key = nk then Inl RanOutOfKeys else storeFunction_loop cb nk key)
      else Inr key)"
  by pat_completeness auto
termination
proof (relation "measure (\<lambda>(cb, nk, key). unat (nk - 1 - key))")
  show "wf (measure (\<lambda>(cb, nk, key). unat (nk - 1 - key)))" by simp
next
  fix cb :: "(32 word \<times> val) list" and nk key x :: "32 word"
  assume x: "x = key + 1" and ne: "x \<noteq> nk"
  have ne0: "nk - 1 - key \<noteq> 0" using x ne by (auto simp: algebra_simps)
  have "unat (nk - 1 - key - 1) = unat (nk - 1 - key) - 1" by (rule unat_minus_one [OF ne0])
  moreover have "0 < unat (nk - 1 - key)" using ne0 unat_gt_0 by blast
  moreover have "nk - 1 - x = nk - 1 - key - 1" by (simp add: x)
  ultimately have "unat (nk - 1 - x) < unat (nk - 1 - key)" by (simp only:)
  then show "((cb, nk, x), (cb, nk, key)) \<in> measure (\<lambda>(cb, nk, key). unat (nk - 1 - key))"
    by simp
qed

text \<open>
  \<open>callbacks[key] = \<dots>\<close> and \<open>delete callbacks[key]\<close> on the table. \<open>Object.keys\<close> lists the
  keys that are not negative first, in ascending order, then the negative ones
  in the order they were added.
\<close>

fun insert_key :: "32 word \<Rightarrow> val \<Rightarrow> (32 word \<times> val) list \<Rightarrow> (32 word \<times> val) list" where
  "insert_key k v [] = [(k, v)]"
| "insert_key k v ((k', v') # cb) =
     (if 0 \<le> sint k' \<and> sint k' < sint k then (k', v') # insert_key k v cb
      else (k, v) # (k', v') # cb)"

definition set_callback :: "32 word \<Rightarrow> val \<Rightarrow> (32 word \<times> val) list \<Rightarrow> (32 word \<times> val) list" where
  "set_callback k v cb =
     (if k \<in> fst ` set cb then map (\<lambda>(k', v'). if k' = k then (k', v) else (k', v')) cb
      else if 0 \<le> sint k then insert_key k v cb
      else cb @ [(k, v)])"

definition delete_callback :: "32 word \<Rightarrow> (32 word \<times> val) list \<Rightarrow> (32 word \<times> val) list" where
  "delete_callback k cb = filter (\<lambda>(k', v'). k' \<noteq> k) cb"

text \<open>
  \<open>_storeFunction(fn)\<close>. With no table, \<open>this.callbacks.hasOwnProperty\<close> raises a
  TypeError. A table with \<open>nextKey\<close> undefined is a state the program does not
  reach (\<open>connect\<close> sets both, \<open>disconnect\<close> clears both).
\<close>

definition storeFunction :: "val \<Rightarrow> remote \<Rightarrow> (exn + int) \<times> remote" where
  "storeFunction fn st =
     (case callbacks st of
        None \<Rightarrow> (Inl TypeError, st)
      | Some cb \<Rightarrow>
          (case nextKey st of
             None \<Rightarrow> (Inl Unmodelled, st)
           | Some nk \<Rightarrow>
               (case storeFunction_loop cb nk nk of
                  Inl e \<Rightarrow> (Inl e, st)
                | Inr key \<Rightarrow>
                    (Inr (sint key),
                     st\<lparr>nextKey := Some (key + 1), callbacks := Some (set_callback key fn cb)\<rparr>))))"

text \<open>
  \<open>_getFunction(key)\<close>, as the \<open>getFunction\<close> of \<open>liven\<close>: \<open>t\<close> is \<open>this.transport\<close>
  at the time of the call, the state is the counter of function objects.
\<close>

definition getFunction :: "nat option \<Rightarrow> wire \<Rightarrow> nat \<Rightarrow> val \<times> nat" where
  "getFunction t key n = (VFun (HandleProxy n t key), Suc n)"

subsection \<open>\<open>send\<close>, \<open>_onReady\<close> and calling a function\<close>

text \<open>
  \<open>Remote.prototype.send\<close>: \<open>message\<close> is frozen, which stores its functions, then
  handed to the Transport; with no Transport bound, \<open>this.transport.send\<close> raises a
  TypeError after the functions have been stored.
\<close>

definition send :: "val \<Rightarrow> remote \<Rightarrow> (exn + unit) \<times> remote" where
  "send message st =
     (case freeze storeFunction (objects st) message st of
        (Inl e, st) \<Rightarrow> (Inl e, st)
      | (Inr w, st) \<Rightarrow>
          (case transport st of
             None \<Rightarrow> (Inl TypeError, st)
           | Some t \<Rightarrow> (Inr (), effect (Send t w) st)))"

text \<open>
  The callback of \<open>names.forEach\<close> in \<open>_onReady\<close>. \<open>self.api[name]\<close> also finds what every
  object inherits, so such a name counts as set. A name that is not a string
  would be converted to one.
\<close>

definition install :: "val \<Rightarrow> remote \<Rightarrow> (exn + unit) \<times> remote" where
  "install name st =
     (case name of
        VStr n \<Rightarrow>
          (if truthy (own (api st) n) \<or> (n \<notin> fst ` set (api st) \<and> n \<in> set object_prototype)
           then (Inr (), st)
           else (Inr (), st\<lparr>api := set_prop n (VFun (ApiProxy n)) (api st)\<rparr>))
      | _ \<Rightarrow> (Inl Unmodelled, st))"

fun install_all :: "val list \<Rightarrow> remote \<Rightarrow> (exn + unit) \<times> remote" where
  "install_all [] st = (Inr (), st)"
| "install_all (name # names) st =
     (case install name st of
        (Inl e, st) \<Rightarrow> (Inl e, st)
      | (Inr u, st) \<Rightarrow> install_all names st)"

text \<open>
  \<open>_onReady(names)\<close>. When \<open>names\<close> is not an array the \<open>error\<close> event is emitted and the
  function goes on to \<open>names.forEach(\<dots>)\<close>, which raises a TypeError: \<open>names\<close> is
  \<open>undefined\<close> or \<open>null\<close>, or has no \<open>forEach\<close> that is a function. (An object with an own
  property \<open>forEach\<close> that is a function, and a byte blob, are where the model stops.)
\<close>

definition onReady :: "val \<Rightarrow> remote \<Rightarrow> (exn + unit) \<times> remote" where
  "onReady names st =
     (case getType (objects st) names of
        IsArray xs \<Rightarrow>
          (case install_all xs st of
             (Inl e, st) \<Rightarrow> (Inl e, st)
           | (Inr u, st) \<Rightarrow> (Inr (), emit ''connect'' [] st))
      | ty \<Rightarrow>
          (let st = emit ''error'' [names] st in
           case ty of
             IsObject kvs \<Rightarrow> (if is_function (own kvs ''forEach'') then (Inl Unmodelled, st) else (Inl TypeError, st))
           | Primitive (WBuf b) \<Rightarrow> (Inl Unmodelled, st)
           | Dangling \<Rightarrow> (Inl Unmodelled, st)
           | _ \<Rightarrow> (Inl TypeError, st)))"

text \<open>
  Calling a function value \<open>f\<close> with arguments \<open>args\<close>:
  \<^item> an application function is recorded;
  \<^item> \<open>this._onReady\<close>: its parameter \<open>names\<close> is the first argument;
  \<^item> the proxy of \<open>_getFunction\<close>: \<open>transport.send([key, args\<dots>])\<close> on the Transport it
    captured, a TypeError when it captured \<open>undefined\<close>;
  \<^item> the proxy \<open>self.api[name]\<close>: with no Transport bound, the last argument is called
    with the \<open>ENOTCONNECTED\<close> error when it is a function; otherwise \<open>[name, args\<dots>]\<close>
    is sent;
  \<^item> calling what is not a function raises a TypeError.
\<close>

function apply_fn :: "val \<Rightarrow> val list \<Rightarrow> remote \<Rightarrow> (exn + unit) \<times> remote" where
  "apply_fn f args st =
     (case f of
        VFun (AppFn n) \<Rightarrow> (Inr (), effect (Call n args) st)
      | VFun OnReady \<Rightarrow> onReady (case args of [] \<Rightarrow> VUndef | names # _ \<Rightarrow> names) st
      | VFun (HandleProxy tag captured key) \<Rightarrow>
          (case captured of
             None \<Rightarrow> (Inl TypeError, st)
           | Some t \<Rightarrow> (Inr (), effect (SendRaw t key args) st))
      | VFun (ApiProxy name) \<Rightarrow>
          (if transport st = None then
             (if args \<noteq> [] \<and> is_function (last args) then apply_fn (last args) [ENOTCONNECTED] st
              else (Inr (), st))
           else
             (let (message, st) = new_array (VStr name # args) st
              in send (VRef message) st))
      | _ \<Rightarrow> (Inl TypeError, st))"
  by pat_completeness auto
termination
  by (relation "measure (\<lambda>(f, args, st). if args \<noteq> [] \<and> is_function (last args) then 1 else 0)")
     (auto simp: ENOTCONNECTED_def is_function_def)

subsection \<open>\<open>connect\<close>, \<open>disconnect\<close> and \<open>_onMessage\<close>\<close>

definition connect :: "nat \<Rightarrow> remote \<Rightarrow> (exn + unit) \<times> remote" where
  "connect t st =
     (let st = st\<lparr>transport := Some t, callbacks := Some [], nextKey := Some 1\<rparr>;
          st = effect (On t ''error'') st;
          st = effect (On t ''message'') st;
          st = effect (On t ''drain'') st;
          (message, st) = new_array [VStr ''ready'', VFun OnReady] st
      in send (VRef message) st)"

text \<open>
  The flush of \<open>disconnect\<close>: \<open>forEach(callbacks, function (callback) { callback(cerr) })\<close>
  over the keys \<open>Object.keys\<close> gave when the loop started. \<open>table\<close> is the object the
  local variable \<open>callbacks\<close> refers to; the stored closures delete their own key
  from it and set \<open>self.nextKey\<close>.
\<close>

fun flush :: "32 word list \<Rightarrow> (32 word \<times> val) list \<Rightarrow> val \<Rightarrow> remote \<Rightarrow> (exn + unit) \<times> remote" where
  "flush [] table cerr st = (Inr (), st)"
| "flush (key # keys) table cerr st =
     (case map_of table key of
        None \<Rightarrow> (Inl TypeError, st)
      | Some fn \<Rightarrow>
          (case apply_fn fn [cerr] (st\<lparr>nextKey := Some key\<rparr>) of
             (Inl e, st) \<Rightarrow> (Inl e, st)
           | (Inr u, st) \<Rightarrow> flush keys (delete_callback key table) cerr st))"

definition disconnect :: "val \<Rightarrow> remote \<Rightarrow> (exn + unit) \<times> remote" where
  "disconnect err st =
     (case transport st of
        None \<Rightarrow> (Inr (), emit ''error'' [if truthy err then err else VErr None ''Not connected''] st)
      | Some t \<Rightarrow>
          (let st = effect (RemoveListener t ''error'') st;
               st = effect (RemoveListener t ''message'') st;
               st = effect (RemoveListener t ''drain'') st;
               st = st\<lparr>transport := None\<rparr>;
               flushed =
                 (case callbacks st of
                    None \<Rightarrow> (Inr (), st)
                  | Some table \<Rightarrow>
                      (let cerr = (if truthy err then err else EDISCONNECT_Remote)
                       in flush (map fst table) table cerr (st\<lparr>callbacks := None\<rparr>)))
           in case flushed of
                (Inl e, st) \<Rightarrow> (Inl e, st)
              | (Inr u, st) \<Rightarrow> (Inr (), emit ''disconnect'' [err] (st\<lparr>nextKey := None\<rparr>))))"

definition onDrain_Remote :: "remote \<Rightarrow> (exn + unit) \<times> remote" where
  "onDrain_Remote st = (Inr (), emit ''drain'' [] st)"

text \<open>
  Looking up the callable in \<open>_onMessage\<close>, for an \<open>id\<close> other than \<open>"ready"\<close>:
  \<open>this.agent.api[id]\<close> for a string, \<open>this.callbacks[id]\<close> otherwise. The result is the
  function of the registry, or the key and the function of the stored closure,
  or \<open>undefined\<close>.
\<close>

datatype callable = Registered val | Stored "32 word" val | Undefined

definition lookup :: "val \<Rightarrow> remote \<Rightarrow> exn + callable" where
  "lookup id' st =
     (case id' of
        VStr name \<Rightarrow>
          (if name \<in> fst ` set (agent_api st) then Inr (Registered (own (agent_api st) name))
           else if name \<in> set object_prototype then Inl Unmodelled
           else Inr Undefined)
      | _ \<Rightarrow>
          (case callbacks st of
             None \<Rightarrow> Inl TypeError
           | Some cb \<Rightarrow>
               (case id' of
                  VNum i \<Rightarrow>
                    (if - (2 ^ 31) \<le> i \<and> i < 2 ^ 31 then
                       (case map_of cb (word_of_int i) of
                          None \<Rightarrow> Inr Undefined
                        | Some fn \<Rightarrow> Inr (Stored (word_of_int i) fn))
                     else Inr Undefined)
                | VRef a \<Rightarrow> Inl Unmodelled
                | VBuf b \<Rightarrow> Inl Unmodelled
                | _ \<Rightarrow> Inr Undefined)))"

text \<open>
  The first two statements of the stored closure, \<open>delete callbacks[key]\<close> and
  \<open>self.nextKey = key\<close>, when it is reached through \<open>this.callbacks\<close>: the table it
  deletes from is the table of the Remote.
\<close>

definition consume :: "32 word \<Rightarrow> remote \<Rightarrow> remote" where
  "consume key st =
     st\<lparr>callbacks := map_option (delete_callback key) (callbacks st), nextKey := Some key\<rparr>"

text \<open>
  \<open>_onMessage(message)\<close>, with the decoded message, in two parts: up to \<open>liven\<close>, and
  from \<open>var id = message[0]\<close> on (\<open>dispatch\<close>, with \<open>id\<close> and \<open>message.slice(1)\<close>). For
  \<open>"ready"\<close> the callable is \<open>function (callback) { callback(keys) }\<close>.
\<close>

definition dispatch :: "val \<Rightarrow> val list \<Rightarrow> remote \<Rightarrow> (exn + unit) \<times> remote" where
  "dispatch id' args st =
     (if id' = VStr ''ready'' then
        (let (keys, st) = new_array (map (\<lambda>(k, v). VStr k) (agent_api st)) st
         in apply_fn (case args of [] \<Rightarrow> VUndef | callback # _ \<Rightarrow> callback) [VRef keys] st)
      else
        (case lookup id' st of
           Inl e \<Rightarrow> (Inl e, st)
         | Inr (Registered fn) \<Rightarrow>
             (if is_function fn then apply_fn fn args st
              else (Inr (), emit ''error'' [VErr None ''Should be function''] st))
         | Inr (Stored key fn) \<Rightarrow> apply_fn fn args (consume key st)
         | Inr Undefined \<Rightarrow> (Inr (), emit ''error'' [VErr None ''Should be function''] st)))"

definition onMessage :: "wire \<Rightarrow> remote \<Rightarrow> (exn + unit) \<times> remote" where
  "onMessage message st =
     (case message of
        WArr (m # ms) \<Rightarrow>
          (case liven (getFunction (transport st)) message (objects st) (tags st) of
             (Inl e, h, n) \<Rightarrow> (Inl e, st\<lparr>objects := h, tags := n\<rparr>)
           | (Inr live, h, n) \<Rightarrow>
               (let st = st\<lparr>objects := h, tags := n\<rparr> in
                case getType h live of
                  IsArray (id' # args) \<Rightarrow> dispatch id' args st
                | _ \<Rightarrow> (Inl Unmodelled, st)))
      | _ \<Rightarrow> (Inr (), emit ''error'' [VErr None ''Message should be an array''] st))"

section \<open>Examples and invariants for the proofs\<close>

subsection \<open>The Transport\<close>



text \<open>
  \<open>emits_only P t t'\<close>: from \<open>t\<close> to \<open>t'\<close> the Transport has emitted events that all
  satisfy \<open>P\<close>, and has touched no stream.
\<close>

definition emits_only :: "(string \<times> ('m, 'x) targ \<Rightarrow> bool) \<Rightarrow> ('m, 'x) transport \<Rightarrow> ('m, 'x) transport \<Rightarrow> bool" where
  "emits_only P t t' \<longleftrightarrow>
     t_streams t' = t_streams t \<and> t_input t' = t_input t \<and> t_output t' = t_output t \<and>
     (\<exists>rest. t_emitted t' = t_emitted t @ rest \<and> list_all P rest)"



text \<open>
  Two fresh streams, readable and writable, and the Transport built on stream 0 as
  input and stream 1 as output.
\<close>

definition idle_streams :: "nat \<Rightarrow> stream" where
  "idle_streams = (\<lambda>s. \<lparr>readable = True, writable = True, listeners = [], destroyed = False\<rparr>)"

definition two_streams :: "(byte list, nat) transport" where
  "two_streams =
     \<lparr>t_input = 0, t_output = 1,
      t_streams = idle_streams
        (0 := \<lparr>readable = True, writable = True,
               listeners = [(''data'', onData), (''end'', onDisconnect), (''timeout'', onDisconnect),
                            (''close'', onDisconnect), (''error'', onError)],
               destroyed = False\<rparr>,
         1 := \<lparr>readable = True, writable = True,
               listeners = [(''drain'', onDrain), (''end'', onDisconnect), (''timeout'', onDisconnect),
                            (''close'', onDisconnect), (''error'', onError)],
               destroyed = False\<rparr>),
      t_parse = deFramer, t_emitted = []\<rparr>"

subsection \<open>The Remote\<close>

text \<open>
  A Remote of an Agent that publishes \<open>add\<close>, at moments of its life:
  \<^item> \<open>handshake_sent\<close>: after \<open>connect\<close> on Transport 7, before any message has come in;
  \<^item> \<open>live\<close>: after the peer's reply to \<open>ready\<close>, \<open>[1, ["echo"]]\<close>, has come in;
  \<^item> \<open>waiting\<close>, \<open>waiting2\<close>: after the application has called \<open>api.echo(2, f9)\<close>, then also
    \<open>api.echo(3, f10)\<close>, \<open>f9\<close> and \<open>f10\<close> being its callbacks;
  \<^item> \<open>answered\<close>: after the peer's answer \<open>[1, null, 5]\<close> to the first call has come in;
  \<^item> \<open>pending\<close>: \<open>handshake_sent\<close> after the application has called
    \<open>remote.send(["ping", f5])\<close>;
  \<^item> \<open>offline\<close>: \<open>live\<close> after \<open>disconnect()\<close>; \<open>reconnecting\<close>: \<open>offline\<close> after \<open>connect\<close> on
    Transport 8, before any message has come in on it.
\<close>

definition registry :: "(string \<times> val) list" where
  "registry = [(''add'', VFun (AppFn 0))]"

definition handshake_sent :: remote where
  "handshake_sent = snd (connect 7 (Remote registry []))"

definition live :: remote where
  "live = snd (onMessage (WArr [WNum 1, WArr [WStr ''echo'']]) handshake_sent)"

definition waiting :: remote where
  "waiting = snd (apply_fn (VFun (ApiProxy ''echo'')) [VNum 2, VFun (AppFn 9)] live)"

definition waiting2 :: remote where
  "waiting2 = snd (apply_fn (VFun (ApiProxy ''echo'')) [VNum 3, VFun (AppFn 10)] waiting)"

definition answered :: remote where
  "answered = snd (onMessage (WArr [WNum 1, WNull, WNum 5]) waiting)"

definition pending :: remote where
  "pending = snd (send (VRef 1) (snd (new_array [VStr ''ping'', VFun (AppFn 5)] handshake_sent)))"

definition offline :: remote where
  "offline = snd (disconnect VUndef live)"

definition reconnecting :: remote where
  "reconnecting = snd (connect 8 offline)"

text \<open>
  A table in which key 2, where \<open>nextKey\<close> stands, is taken, and one whose
  \<open>nextKey\<close> is the largest 32-bit integer.
\<close>

definition crowded :: remote where
  "crowded = waiting2\<lparr>nextKey := Some 2\<rparr>"

definition at_max_key :: remote where
  "at_max_key = live\<lparr>nextKey := Some 2147483647\<rparr>"

subsection \<open>The round trip\<close>

text \<open>
  \<open>liven(freeze(v, sf), gf)\<close> on the heap \<open>h\<close>: the result and the heap afterwards, which
  is \<open>h\<close> followed by the nodes \<open>liven\<close> has built.
\<close>

definition roundtrip ::
  "(val \<Rightarrow> 's \<Rightarrow> (exn + int) \<times> 's) \<Rightarrow> (wire \<Rightarrow> 'g \<Rightarrow> val \<times> 'g) \<Rightarrow> heap \<Rightarrow> val \<Rightarrow> 's \<Rightarrow> 'g
     \<Rightarrow> (exn + val) \<times> heap" where
  "roundtrip sf gf h v s g =
     (case freeze sf h v s of
        (Inl e, s') \<Rightarrow> (Inl e, h)
      | (Inr w, s') \<Rightarrow> (case liven gf w h g of (r, h', g') \<Rightarrow> (r, h')))"

section \<open>Framing\<close>

text \<open>
  C2. The claim: the length-prefixed encodings of any blobs \<open>B1 \<dots> Bn\<close>, each possibly
  empty, fed to \<open>parse\<close> in any chunking, make \<open>onFrame\<close> run exactly \<open>n\<close> times, with
  \<open>B1 \<dots> Bn\<close>. The code at one empty blob, whose encoding is the four bytes
  \<open>00 00 00 00\<close> fed as one chunk: \<open>onFrame\<close> is not run at all. The loop ends in state 4
  with an empty buffer allocated, and the frame is handed over only when a later
  byte arrives.
\<close>

theorem deFramer_empty_frame_not_delivered:
  "framed [] = [0, 0, 0, 0] \<and>
   feed deFramer [framed []] =
     ([], Inr \<lparr>buffer = Some [], state = 4, len = 0, offset = Some 0\<rparr>)"
  by (simp add: framed_def writeUInt32BE_def deFramer_def)

section \<open>The Transport's disconnect\<close>




lemma emits_only_mono: "emits_only P t t' \<Longrightarrow> (\<And>e. P e \<Longrightarrow> Q e) \<Longrightarrow> emits_only Q t t'"
  by (auto simp: emits_only_def list_all_iff)


















text \<open>
  A header whose length has the top bit set stops \<open>parse\<close> in \<open>case 3\<close>; \<open>onData\<close> emits
  the error. The closure is left in state 4 with no buffer, so the next chunk,
  here a well-formed frame, raises in \<open>chunk.copy\<close> and yields no message.
\<close>

lemma negative_length_leaves_parser_stuck:
  "t_emitted (stream_events decode
      [(0, ''data'', Chunk [128, 0, 0, 0]), (0, ''data'', Chunk [0, 0, 0, 1, 7])] two_streams) =
     [(''error'', Err (Framer NegativeLength)), (''error'', Err (Framer CopyTypeError))] \<and>
   t_parse (stream_events decode
      [(0, ''data'', Chunk [128, 0, 0, 0]), (0, ''data'', Chunk [0, 0, 0, 1, 7])] two_streams) =
     \<lparr>buffer = None, state = 4, len = - 2147483648, offset = None\<rparr>"
  by (simp add: two_streams_def idle_streams_def stream_emit_def deFramer_def t_emit_def)



section \<open>Callback keys\<close>

lemma storeFunction_loop_full:
  assumes "\<forall>key. key \<in> fst ` set cb"
  shows "storeFunction_loop cb nk key = Inl RanOutOfKeys"
  using assms
proof (induction cb nk key rule: storeFunction_loop.induct)
  case (1 cb nk key)
  show ?case
  proof (cases "key + 1 = nk")
    case True
    with 1(2) show ?thesis by (subst storeFunction_loop.simps) (simp add: Let_def)
  next
    case False
    have "storeFunction_loop cb nk (key + 1) = Inl RanOutOfKeys"
      using 1(1) [OF _ refl False] 1(2) by simp
    with False 1(2) show ?thesis by (subst storeFunction_loop.simps) (simp add: Let_def)
  qed
qed

lemma storeFunction_loop_first_free:
  assumes "\<forall>i<d. key + of_nat i \<in> fst ` set cb"
    and "key + of_nat d \<notin> fst ` set cb"
    and "\<forall>i. 0 < i \<and> i \<le> d \<longrightarrow> key + of_nat i \<noteq> nk"
  shows "storeFunction_loop cb nk key = Inr (key + of_nat d)"
  using assms
proof (induction d arbitrary: key)
  case 0
  then show ?case by (subst storeFunction_loop.simps) simp
next
  case (Suc d)
  from Suc.prems(1) [rule_format, of 0] have occ: "key \<in> fst ` set cb" by simp
  from Suc.prems(3) [rule_format, of 1] have ne: "key + 1 \<noteq> nk" by simp
  have shift: "key + of_nat (Suc i) = key + 1 + of_nat i" for i by simp
  have "storeFunction_loop cb nk (key + 1) = Inr (key + 1 + of_nat d)"
  proof (rule Suc.IH)
    show "\<forall>i<d. key + 1 + of_nat i \<in> fst ` set cb"
      using Suc.prems(1) [rule_format, of "Suc _"] unfolding shift by simp
    show "key + 1 + of_nat d \<notin> fst ` set cb"
      using Suc.prems(2) unfolding shift .
    show "\<forall>i. 0 < i \<and> i \<le> d \<longrightarrow> key + 1 + of_nat i \<noteq> nk"
      using Suc.prems(3) [rule_format, of "Suc _"] unfolding shift by simp
  qed
  then have "storeFunction_loop cb nk (key + 1) = Inr (key + of_nat (Suc d))"
    unfolding shift .
  with occ ne show ?case
    by (subst storeFunction_loop.simps) (simp only: Let_def if_True if_False)
qed


lemma sint_succ:
  "sint (k + 1 :: 32 word) = (if sint k = 2147483647 then - 2147483648 else sint k + 1)"
proof -
  have r: "- 2147483648 \<le> sint k" "sint k < 2147483648"
    using sint_ge [of k] sint_lt [of k] by simp_all
  have eq: "sint (k + 1) = signed_take_bit 31 (sint k + 1)"
    by (simp add: sint_word_ariths)
  show ?thesis
  proof (cases "sint k = 2147483647")
    case True
    then show ?thesis unfolding eq by (simp add: signed_take_bit_eq_take_bit_shift take_bit_eq_mod)
  next
    case False
    with r have "- (2 ^ 31) \<le> sint k + 1" "sint k + 1 < 2 ^ 31" by simp_all
    then have "signed_take_bit 31 (sint k + 1) = sint k + 1" by (rule signed_take_bit_int_eq_self)
    with False show ?thesis unfolding eq by simp
  qed
qed

lemma map_of_insert_key:
  "k \<notin> fst ` set cb \<Longrightarrow> map_of (insert_key k v cb) k = Some v"
  by (induction cb) (auto split: if_splits)

lemma map_of_set_callback:
  "k \<notin> fst ` set cb \<Longrightarrow> map_of (set_callback k v cb) k = Some v"
proof -
  assume k: "k \<notin> fst ` set cb"
  then have "map_of cb k = None" by (simp add: map_of_eq_None_iff)
  with k show ?thesis
    by (simp add: set_callback_def map_of_insert_key map_add_def)
qed

lemma first_free:
  fixes nk :: "32 word"
  assumes "kf \<notin> K"
  obtains d where "d < 2 ^ 32" "\<forall>i<d. nk + of_nat i \<in> K" "nk + of_nat d \<notin> K"
proof -
  let ?P = "\<lambda>d. nk + of_nat d \<notin> K"
  have P0: "?P (unat (kf - nk))" using assms by simp
  define d where "d = (LEAST d. ?P d)"
  have "?P d" unfolding d_def using P0 by (rule LeastI)
  moreover have "d \<le> unat (kf - nk)" unfolding d_def using P0 by (rule Least_le)
  then have "d < 2 ^ 32" using unsigned_less [of "kf - nk", where 'a = nat] by simp
  moreover have "\<forall>i<d. nk + of_nat i \<in> K"
    using not_less_Least [of _ ?P] unfolding d_def by blast
  ultimately show ?thesis using that by blast
qed

lemma lookup_key:
  "callbacks st = Some cb \<Longrightarrow>
   lookup (VNum (sint k)) st = (case map_of cb k of None \<Rightarrow> Inr Undefined | Some fn \<Rightarrow> Inr (Stored k fn))"
  using sint_ge [of k] sint_lt [of k] by (simp add: lookup_def split: option.splits)

lemma map_of_delete_callback: "map_of (delete_callback k cb) k = None"
  by (induction cb) (auto simp: delete_callback_def)

lemma apply_fn_AppFn: "apply_fn (VFun (AppFn n)) args st = (Inr (), effect (Call n args) st)"
  by simp

lemma storeFunction_loop_free: "key \<notin> fst ` set cb \<Longrightarrow> storeFunction_loop cb nk key = Inr key"
  by (subst storeFunction_loop.simps) simp

lemma delete_callback_keys: "k \<notin> fst ` set (delete_callback k cb)"
  by (auto simp: delete_callback_def)

lemmas run =
  Remote_def connect_def effect_def emit_def new_array_def send_def freeze_def getType_def
  storeFunction_def set_callback_def key_wire_def escape_def set_prop_def array_index_def
  onMessage_def liven_def alloc_def assign_def unescape_def dispatch_def lookup_def consume_def
  delete_callback_def onReady_def install_def own_def truthy_def is_function_def object_prototype_def
  getFunction_def disconnect_def EDISCONNECT_Remote_def ENOTCONNECTED_def get_prop_def digit_def

lemma storeFunction_loop_empty [simp]: "storeFunction_loop [] nk key = Inr key"
  by (subst storeFunction_loop.simps) simp

lemma handshake_sent_eq:
  "handshake_sent =
    \<lparr>agent_api = [(''add'', VFun (AppFn 0))], api = [], transport = Some 7,
     callbacks = Some [(1, VFun OnReady)], nextKey = Some 2,
     objects = [NArr [VStr ''ready'', VFun OnReady]], tags = 0,
     effects =
       [On 7 ''error'', On 7 ''message'', On 7 ''drain'',
        Send 7 (WArr [WStr ''ready'', WObj [(''$'', WNum 1)]])]\<rparr>"
  by (simp add: handshake_sent_def registry_def run)

lemma live_eq:
  "live =
    \<lparr>agent_api = [(''add'', VFun (AppFn 0))],
     api = [(''echo'', VFun (ApiProxy ''echo''))], transport = Some 7,
     callbacks = Some [], nextKey = Some 1,
     objects =
       [NArr [VStr ''ready'', VFun OnReady], NArr [VNum 1, VRef 2],
        NArr [VStr ''echo'']],
     tags = 0,
     effects =
       [On 7 ''error'', On 7 ''message'', On 7 ''drain'',
        Send 7 (WArr [WStr ''ready'', WObj [(''$'', WNum 1)]]),
        Emit ''connect'' []]\<rparr>"
  by (simp add: live_def handshake_sent_eq run)

lemma waiting_eq:
  "waiting =
    \<lparr>agent_api = [(''add'', VFun (AppFn 0))],
     api = [(''echo'', VFun (ApiProxy ''echo''))], transport = Some 7,
     callbacks = Some [(1, VFun (AppFn 9))], nextKey = Some 2,
     objects =
       [NArr [VStr ''ready'', VFun OnReady], NArr [VNum 1, VRef 2],
        NArr [VStr ''echo''], NArr [VStr ''echo'', VNum 2, VFun (AppFn 9)]],
     tags = 0,
     effects =
       [On 7 ''error'', On 7 ''message'', On 7 ''drain'',
        Send 7 (WArr [WStr ''ready'', WObj [(''$'', WNum 1)]]),
        Emit ''connect'' [],
        Send 7 (WArr [WStr ''echo'', WNum 2, WObj [(''$'', WNum 1)]])]\<rparr>"
  by (simp add: waiting_def live_eq run)

lemma waiting2_eq:
  "waiting2 =
    \<lparr>agent_api = [(''add'', VFun (AppFn 0))],
     api = [(''echo'', VFun (ApiProxy ''echo''))], transport = Some 7,
     callbacks = Some [(1, VFun (AppFn 9)), (2, VFun (AppFn 10))], nextKey = Some 3,
     objects =
       [NArr [VStr ''ready'', VFun OnReady], NArr [VNum 1, VRef 2],
        NArr [VStr ''echo''], NArr [VStr ''echo'', VNum 2, VFun (AppFn 9)],
        NArr [VStr ''echo'', VNum 3, VFun (AppFn 10)]],
     tags = 0,
     effects =
       [On 7 ''error'', On 7 ''message'', On 7 ''drain'',
        Send 7 (WArr [WStr ''ready'', WObj [(''$'', WNum 1)]]),
        Emit ''connect'' [],
        Send 7 (WArr [WStr ''echo'', WNum 2, WObj [(''$'', WNum 1)]]),
        Send 7 (WArr [WStr ''echo'', WNum 3, WObj [(''$'', WNum 2)]])]\<rparr>"
  by (simp add: waiting2_def waiting_eq run)

lemma answered_eq:
  "answered =
    \<lparr>agent_api = [(''add'', VFun (AppFn 0))],
     api = [(''echo'', VFun (ApiProxy ''echo''))], transport = Some 7,
     callbacks = Some [], nextKey = Some 1,
     objects =
       [NArr [VStr ''ready'', VFun OnReady], NArr [VNum 1, VRef 2],
        NArr [VStr ''echo''], NArr [VStr ''echo'', VNum 2, VFun (AppFn 9)],
        NArr [VNum 1, VNull, VNum 5]],
     tags = 0,
     effects =
       [On 7 ''error'', On 7 ''message'', On 7 ''drain'',
        Send 7 (WArr [WStr ''ready'', WObj [(''$'', WNum 1)]]),
        Emit ''connect'' [],
        Send 7 (WArr [WStr ''echo'', WNum 2, WObj [(''$'', WNum 1)]]),
        Call 9 [VNull, VNum 5]]\<rparr>"
  by (simp add: answered_def waiting_eq run)

lemma pending_eq:
  "pending =
    \<lparr>agent_api = [(''add'', VFun (AppFn 0))], api = [], transport = Some 7,
     callbacks = Some [(1, VFun OnReady), (2, VFun (AppFn 5))], nextKey = Some 3,
     objects =
       [NArr [VStr ''ready'', VFun OnReady], NArr [VStr ''ping'', VFun (AppFn 5)]],
     tags = 0,
     effects =
       [On 7 ''error'', On 7 ''message'', On 7 ''drain'',
        Send 7 (WArr [WStr ''ready'', WObj [(''$'', WNum 1)]]),
        Send 7 (WArr [WStr ''ping'', WObj [(''$'', WNum 2)]])]\<rparr>"
  by (simp add: pending_def handshake_sent_eq run)

lemma offline_eq:
  "offline =
    \<lparr>agent_api = [(''add'', VFun (AppFn 0))],
     api = [(''echo'', VFun (ApiProxy ''echo''))], transport = None,
     callbacks = None, nextKey = None,
     objects =
       [NArr [VStr ''ready'', VFun OnReady], NArr [VNum 1, VRef 2],
        NArr [VStr ''echo'']],
     tags = 0,
     effects =
       [On 7 ''error'', On 7 ''message'', On 7 ''drain'',
        Send 7 (WArr [WStr ''ready'', WObj [(''$'', WNum 1)]]),
        Emit ''connect'' [], RemoveListener 7 ''error'',
        RemoveListener 7 ''message'', RemoveListener 7 ''drain'',
        Emit ''disconnect'' [VUndef]]\<rparr>"
  by (simp add: offline_def live_eq run)

lemma reconnecting_eq:
  "reconnecting =
    \<lparr>agent_api = [(''add'', VFun (AppFn 0))],
     api = [(''echo'', VFun (ApiProxy ''echo''))], transport = Some 8,
     callbacks = Some [(1, VFun OnReady)], nextKey = Some 2,
     objects =
       [NArr [VStr ''ready'', VFun OnReady], NArr [VNum 1, VRef 2],
        NArr [VStr ''echo''], NArr [VStr ''ready'', VFun OnReady]],
     tags = 0,
     effects =
       [On 7 ''error'', On 7 ''message'', On 7 ''drain'',
        Send 7 (WArr [WStr ''ready'', WObj [(''$'', WNum 1)]]),
        Emit ''connect'' [], RemoveListener 7 ''error'',
        RemoveListener 7 ''message'', RemoveListener 7 ''drain'',
        Emit ''disconnect'' [VUndef], On 8 ''error'', On 8 ''message'',
        On 8 ''drain'',
        Send 8 (WArr [WStr ''ready'', WObj [(''$'', WNum 1)]])]\<rparr>"
  by (simp add: reconnecting_def offline_eq run)

text \<open>
  C7, the claim as stated: on success \<open>nextKey\<close> becomes \<open>(k + 1) mod 2^32\<close>, the keys
  wrapping as unsigned 32-bit integers. With \<open>nextKey\<close> at 2147483647 and that key
  free, \<open>_storeFunction\<close> returns 2147483647 and leaves \<open>nextKey\<close> at -2147483648, which
  is not \<open>(2147483647 + 1) mod 2^32\<close>.
\<close>

theorem storeFunction_unsigned_counterexample:
  "fst (storeFunction (VFun (AppFn 1)) at_max_key) = Inr 2147483647 \<and>
   map_option sint (nextKey (snd (storeFunction (VFun (AppFn 1)) at_max_key))) = Some (- 2147483648) \<and>
   map_option sint (nextKey (snd (storeFunction (VFun (AppFn 1)) at_max_key))) \<noteq>
     Some ((2147483647 + 1) mod 2 ^ 32)"
  by (simp add: at_max_key_def live_eq storeFunction_def)

text \<open>
  C7, amended: the wrap-around is that of signed 32-bit integers. With a table
  and \<open>nextKey = nk\<close>:
  \<^item> if every one of the \<open>2^32\<close> keys is in the table, \<open>_storeFunction\<close> raises \<open>Ran out
    of keys\<close> and changes nothing;
  \<^item> otherwise it returns the first key \<open>k\<close> of \<open>nk\<close>, \<open>nk + 1\<close>, \<open>nk + 2\<close>, \<dots> that is not in
    the table (all before it are), stores \<open>fn\<close> under \<open>k\<close> and sets \<open>nextKey\<close> to \<open>k + 1\<close>;
  \<^item> \<open>+ 1\<close> on keys, as the program's numbers: after 2147483647 comes -2147483648.
\<close>

theorem storeFunction_searches_with_signed_wrap:
  assumes "callbacks st = Some cb" and "nextKey st = Some nk"
  shows "((\<forall>key. key \<in> fst ` set cb) \<longrightarrow> storeFunction fn st = (Inl RanOutOfKeys, st)) \<and>
         ((\<exists>key. key \<notin> fst ` set cb) \<longrightarrow>
            (\<exists>d < 2 ^ 32.
               (\<forall>i<d. nk + of_nat i \<in> fst ` set cb) \<and> nk + of_nat d \<notin> fst ` set cb \<and>
               storeFunction fn st =
                 (Inr (sint (nk + of_nat d)),
                  st\<lparr>nextKey := Some (nk + of_nat d + 1),
                     callbacks := Some (set_callback (nk + of_nat d) fn cb)\<rparr>) \<and>
               map_of (set_callback (nk + of_nat d) fn cb) (nk + of_nat d) = Some fn)) \<and>
         (\<forall>k :: 32 word. sint (k + 1) = (if sint k = 2147483647 then - 2147483648 else sint k + 1))"
proof (intro conjI impI allI)
  assume "\<forall>key. key \<in> fst ` set cb"
  then have "storeFunction_loop cb nk nk = Inl RanOutOfKeys" by (rule storeFunction_loop_full)
  with assms show "storeFunction fn st = (Inl RanOutOfKeys, st)" by (simp add: storeFunction_def)
next
  assume "\<exists>key. key \<notin> fst ` set cb"
  then obtain kf where "kf \<notin> fst ` set cb" ..
  then obtain d where d: "d < 2 ^ 32" "\<forall>i<d. nk + of_nat i \<in> fst ` set cb" "nk + of_nat d \<notin> fst ` set cb"
    by (rule first_free)
  have "\<forall>i. 0 < i \<and> i \<le> d \<longrightarrow> nk + of_nat i \<noteq> nk"
  proof (intro allI impI)
    fix i assume i: "0 < i \<and> i \<le> d"
    with d(1) have "\<not> 2 ^ 32 dvd i" by (auto dest: dvd_imp_le)
    then have "(of_nat i :: 32 word) \<noteq> 0" by (simp add: word_of_nat_eq_0_iff)
    then show "nk + of_nat i \<noteq> nk" by simp
  qed
  with d have "storeFunction_loop cb nk nk = Inr (nk + of_nat d)"
    by (intro storeFunction_loop_first_free)
  with assms have "storeFunction fn st =
      (Inr (sint (nk + of_nat d)),
       st\<lparr>nextKey := Some (nk + of_nat d + 1), callbacks := Some (set_callback (nk + of_nat d) fn cb)\<rparr>)"
    by (simp add: storeFunction_def)
  with d map_of_set_callback [OF d(3)] show "\<exists>d < 2 ^ 32.
               (\<forall>i<d. nk + of_nat i \<in> fst ` set cb) \<and> nk + of_nat d \<notin> fst ` set cb \<and>
               storeFunction fn st =
                 (Inr (sint (nk + of_nat d)),
                  st\<lparr>nextKey := Some (nk + of_nat d + 1),
                     callbacks := Some (set_callback (nk + of_nat d) fn cb)\<rparr>) \<and>
               map_of (set_callback (nk + of_nat d) fn cb) (nk + of_nat d) = Some fn"
    by blast
next
  fix k :: "32 word"
  show "sint (k + 1) = (if sint k = 2147483647 then - 2147483648 else sint k + 1)" by (rule sint_succ)
qed

text \<open>
  The amended C7 where key 2, at \<open>nextKey\<close>, is taken: the search moves on to 3.
\<close>

theorem storeFunction_searches_with_signed_wrap_witness:
  "callbacks crowded = Some [(1, VFun (AppFn 9)), (2, VFun (AppFn 10))] \<and>
   nextKey crowded = Some 2 \<and>
   storeFunction (VFun (AppFn 11)) crowded =
     (Inr 3, crowded\<lparr>nextKey := Some 4,
        callbacks := Some [(1, VFun (AppFn 9)), (2, VFun (AppFn 10)), (3, VFun (AppFn 11))]\<rparr>)"
proof -
  let ?cb = "[(1 :: 32 word, VFun (AppFn 9)), (2, VFun (AppFn 10))]"
  have h1: "callbacks crowded = Some ?cb" and h2: "nextKey crowded = Some 2"
    by (simp_all add: crowded_def waiting2_eq)
  have free: "\<exists>key :: 32 word. key \<notin> fst ` set ?cb" by (rule exI [of _ 3]) simp
  from storeFunction_searches_with_signed_wrap [OF h1 h2, of "VFun (AppFn 11)"] free
  obtain d where d: "\<forall>i<d. (2 :: 32 word) + of_nat i \<in> fst ` set ?cb"
      "(2 :: 32 word) + of_nat d \<notin> fst ` set ?cb"
    and r: "storeFunction (VFun (AppFn 11)) crowded =
      (Inr (sint ((2 :: 32 word) + of_nat d)),
       crowded\<lparr>nextKey := Some (2 + of_nat d + 1),
         callbacks := Some (set_callback (2 + of_nat d) (VFun (AppFn 11)) ?cb)\<rparr>)"
    by blast
  have "d = 1"
  proof (rule ccontr)
    assume "d \<noteq> 1"
    with d(2) have "1 < d" by (cases "d = 0") simp_all
    with d(1) [rule_format, of 1] show False by simp
  qed
  with r h1 h2 show ?thesis by (simp add: set_callback_def)
qed

text \<open>
  C6, the claim as stated: right after a stored handle is consumed, by the first
  call of its stored closure, the next \<open>_storeFunction\<close> returns that key. In
  \<open>waiting2\<close> handles 1 and 2 are stored. \<open>disconnect()\<close> calls both closures, handle 2
  last. After it there is no table: \<open>_storeFunction\<close> raises a TypeError; and the
  next call that returns, the one \<open>connect\<close> makes for the handshake, returns 1.
\<close>

theorem freed_key_after_flush_counterexample:
  "callbacks waiting2 = Some [(1, VFun (AppFn 9)), (2, VFun (AppFn 10))] \<and>
   fst (disconnect VUndef waiting2) = Inr () \<and>
   effects (snd (disconnect VUndef waiting2)) =
     effects waiting2 @
       [RemoveListener 7 ''error'', RemoveListener 7 ''message'', RemoveListener 7 ''drain'',
        Call 9 [EDISCONNECT_Remote], Call 10 [EDISCONNECT_Remote], Emit ''disconnect'' [VUndef]] \<and>
   fst (storeFunction (VFun (AppFn 11)) (snd (disconnect VUndef waiting2))) = Inl TypeError \<and>
   callbacks (snd (connect 8 (snd (disconnect VUndef waiting2)))) = Some [(1, VFun OnReady)]"
  by (simp add: waiting2_eq run Let_def)

text \<open>
  C6, amended: the handle is consumed by an inbound message, that is, its stored
  closure is reached through the table of the Remote, deletes \<open>k\<close> from it and sets
  \<open>nextKey\<close> to \<open>k\<close>. Then, as long as the table and \<open>nextKey\<close> have not been touched
  since (state \<open>st'\<close>), \<open>_storeFunction\<close> returns \<open>k\<close> and stores under it. In particular
  so does the first \<open>_storeFunction\<close> after the message \<open>[k, args\<dots>]\<close> has been
  dispatched to an application callback.
\<close>

theorem freed_key_is_stored_next:
  assumes "callbacks st = Some cb"
    and "callbacks st' = callbacks (consume k st)" and "nextKey st' = nextKey (consume k st)"
  shows "storeFunction g st' =
           (Inr (sint k),
            st'\<lparr>nextKey := Some (k + 1), callbacks := Some (set_callback k g (delete_callback k cb))\<rparr>) \<and>
         (map_of cb k = Some (VFun (AppFn n)) \<longrightarrow>
            fst (storeFunction g (snd (dispatch (VNum (sint k)) args st))) = Inr (sint k))"
proof
  from assms have c: "callbacks st' = Some (delete_callback k cb)" and n: "nextKey st' = Some k"
    by (simp_all add: consume_def)
  show "storeFunction g st' =
           (Inr (sint k),
            st'\<lparr>nextKey := Some (k + 1), callbacks := Some (set_callback k g (delete_callback k cb))\<rparr>)"
    by (simp add: storeFunction_def c n storeFunction_loop_free delete_callback_keys)
  show "map_of cb k = Some (VFun (AppFn n)) \<longrightarrow>
            fst (storeFunction g (snd (dispatch (VNum (sint k)) args st))) = Inr (sint k)"
  proof
    assume fn: "map_of cb k = Some (VFun (AppFn n))"
    let ?st1 = "effect (Call n args) (consume k st)"
    from assms(1) fn have 1: "dispatch (VNum (sint k)) args st = (Inr (), ?st1)"
      by (simp add: dispatch_def lookup_key)
    from assms(1) have "callbacks ?st1 = Some (delete_callback k cb)" "nextKey ?st1 = Some k"
      by (simp_all add: consume_def effect_def)
    then show "fst (storeFunction g (snd (dispatch (VNum (sint k)) args st))) = Inr (sint k)"
      unfolding 1 snd_conv
      by (simp add: storeFunction_def storeFunction_loop_free delete_callback_keys)
  qed
qed


text \<open>The amended C6 in \<open>waiting\<close>, where handle 1 holds the application's callback.\<close>

theorem freed_key_is_stored_next_witness:
  "callbacks waiting = Some [(1, VFun (AppFn 9))] \<and>
   map_of [(1 :: 32 word, VFun (AppFn 9))] 1 = Some (VFun (AppFn 9)) \<and>
   storeFunction (VFun (AppFn 11)) (consume 1 waiting) =
     (Inr (sint (1 :: 32 word)),
      (consume 1 waiting)\<lparr>nextKey := Some (1 + 1),
         callbacks := Some (set_callback 1 (VFun (AppFn 11)) (delete_callback 1 [(1, VFun (AppFn 9))]))\<rparr>) \<and>
   fst (storeFunction (VFun (AppFn 11)) (snd (dispatch (VNum (sint (1 :: 32 word))) [VNull, VNum 5] waiting))) =
     Inr (sint (1 :: 32 word))"
proof -
  have h: "callbacks waiting = Some [(1, VFun (AppFn 9))]" by (simp add: waiting_eq)
  have m: "map_of [(1 :: 32 word, VFun (AppFn 9))] 1 = Some (VFun (AppFn 9))" by simp
  note r = freed_key_is_stored_next [OF h refl refl,
      where k = 1 and g = "VFun (AppFn 11)" and n = 9 and args = "[VNull, VNum 5]"]
  from r [THEN conjunct1] r [THEN conjunct2, rule_format, OF m] h m show ?thesis by simp
qed

text \<open>
  C5, the claim as stated: every invocation of handle \<open>k\<close> after the first is a
  no-op. In \<open>answered\<close> handle 1 has been invoked once. When \<open>[1, null, 5]\<close> comes in
  again the Remote emits an \<open>error\<close> event.
\<close>

theorem second_invocation_counterexample:
  "answered = snd (onMessage (WArr [WNum 1, WNull, WNum 5]) waiting) \<and>
   effects answered = effects waiting @ [Call 9 [VNull, VNum 5]] \<and>
   effects (snd (onMessage (WArr [WNum 1, WNull, WNum 5]) answered)) =
     effects answered @ [Emit ''error'' [VErr None ''Should be function'']]"
  by (simp add: answered_def [symmetric]) (simp add: answered_eq waiting_eq run)

text \<open>
  C5, amended. \<open>_onMessage\<close> decodes the message with \<open>liven\<close> before it reads
  \<open>message[0]\<close>. When \<open>liven\<close> raises (as on \<open>[k, {"hasOwnProperty": 2}]\<close>, or on a
  back-reference that leads nowhere) the exception leaves \<open>_onMessage\<close>: nothing is
  looked up, the table, \<open>nextKey\<close> and the effects are as before. When \<open>liven\<close> returns
  the sequence \<open>[k, args\<dots>]\<close> and the Remote has a callback table (it has one from
  \<open>connect\<close> to \<open>disconnect\<close>), with \<open>k\<close> in the table, holding \<open>fn\<close>: the message deletes
  \<open>k\<close> from the table, sets \<open>nextKey\<close> to \<open>k\<close> and calls \<open>fn\<close> with \<open>args\<close>; with \<open>k\<close> not in
  the table: it calls nothing and emits an \<open>error\<close> event (\<open>Should be function\<close>). So
  an application callback stored under \<open>k\<close> is called once by two such messages in
  a row, and the second one is answered by the \<open>error\<close> event. With no table,
  \<open>this.callbacks[k]\<close> raises a TypeError.
\<close>

theorem stored_handle_is_single_shot:
  assumes "liven (getFunction (transport st)) (WArr (m # ms)) (objects st) (tags st) = (r, h, n)"
  shows "(r = Inl e \<longrightarrow>
            onMessage (WArr (m # ms)) st = (Inl e, st\<lparr>objects := h, tags := n\<rparr>) \<and>
            callbacks (st\<lparr>objects := h, tags := n\<rparr>) = callbacks st \<and>
            nextKey (st\<lparr>objects := h, tags := n\<rparr>) = nextKey st \<and>
            effects (st\<lparr>objects := h, tags := n\<rparr>) = effects st) \<and>
         (r = Inr lv \<and> getType h lv = IsArray (VNum (sint k) # args) \<longrightarrow>
            (callbacks st = None \<longrightarrow>
               onMessage (WArr (m # ms)) st = (Inl TypeError, st\<lparr>objects := h, tags := n\<rparr>)) \<and>
            (callbacks st = Some cb \<longrightarrow>
               (map_of cb k = Some fn \<longrightarrow>
                  onMessage (WArr (m # ms)) st =
                    apply_fn fn args (consume k (st\<lparr>objects := h, tags := n\<rparr>)) \<and>
                  callbacks (consume k (st\<lparr>objects := h, tags := n\<rparr>)) = Some (delete_callback k cb) \<and>
                  map_of (delete_callback k cb) k = None \<and>
                  nextKey (consume k (st\<lparr>objects := h, tags := n\<rparr>)) = Some k) \<and>
               (map_of cb k = None \<longrightarrow>
                  onMessage (WArr (m # ms)) st =
                    (Inr (), emit ''error'' [VErr None ''Should be function''] (st\<lparr>objects := h, tags := n\<rparr>))) \<and>
               (map_of cb k = Some (VFun (AppFn f)) \<and>
                liven (getFunction (transport st)) (WArr (m' # ms')) h n = (Inr lv', h', n') \<and>
                getType h' lv' = IsArray (VNum (sint k) # args') \<longrightarrow>
                  effects (snd (onMessage (WArr (m' # ms')) (snd (onMessage (WArr (m # ms)) st)))) =
                    effects st @ [Call f args, Emit ''error'' [VErr None ''Should be function'']])))"
proof (intro conjI impI)
  assume "r = Inl e"
  with assms show "onMessage (WArr (m # ms)) st = (Inl e, st\<lparr>objects := h, tags := n\<rparr>)"
    by (simp add: onMessage_def)
  show "callbacks (st\<lparr>objects := h, tags := n\<rparr>) = callbacks st" by simp
  show "nextKey (st\<lparr>objects := h, tags := n\<rparr>) = nextKey st" by simp
  show "effects (st\<lparr>objects := h, tags := n\<rparr>) = effects st" by simp
next
  let ?st1 = "st\<lparr>objects := h, tags := n\<rparr>"
  assume lv: "r = Inr lv \<and> getType h lv = IsArray (VNum (sint k) # args)"
  with assms have om: "onMessage (WArr (m # ms)) st = dispatch (VNum (sint k)) args ?st1"
    by (simp add: onMessage_def)
  {
    assume "callbacks st = None"
    then show "onMessage (WArr (m # ms)) st = (Inl TypeError, ?st1)"
      unfolding om by (simp add: dispatch_def lookup_def)
  }
  assume "callbacks st = Some cb"
  then have cb: "callbacks ?st1 = Some cb" by simp
  {
    assume fn: "map_of cb k = Some fn"
    from cb fn show "onMessage (WArr (m # ms)) st = apply_fn fn args (consume k ?st1)"
      unfolding om by (simp add: dispatch_def lookup_key)
    from cb show "callbacks (consume k ?st1) = Some (delete_callback k cb)"
      by (simp add: consume_def)
    show "map_of (delete_callback k cb) k = None" by (rule map_of_delete_callback)
    show "nextKey (consume k ?st1) = Some k" by (simp add: consume_def)
  }
  {
    assume "map_of cb k = None"
    with cb show "onMessage (WArr (m # ms)) st =
        (Inr (), emit ''error'' [VErr None ''Should be function''] ?st1)"
      unfolding om by (simp add: dispatch_def lookup_key)
  }
  {
    assume 2: "map_of cb k = Some (VFun (AppFn f)) \<and>
       liven (getFunction (transport st)) (WArr (m' # ms')) h n = (Inr lv', h', n') \<and>
       getType h' lv' = IsArray (VNum (sint k) # args')"
    let ?st2 = "effect (Call f args) (consume k ?st1)"
    let ?st3 = "?st2\<lparr>objects := h', tags := n'\<rparr>"
    from cb 2 have 1: "onMessage (WArr (m # ms)) st = (Inr (), ?st2)"
      unfolding om by (simp add: dispatch_def lookup_key)
    have t2: "transport ?st2 = transport st" "objects ?st2 = h" "tags ?st2 = n"
      by (simp_all add: effect_def consume_def)
    from 2 have om2: "onMessage (WArr (m' # ms')) ?st2 = dispatch (VNum (sint k)) args' ?st3"
      by (simp add: onMessage_def t2)
    from cb have cb3: "callbacks ?st3 = Some (delete_callback k cb)"
      by (simp add: consume_def effect_def)
    have 3: "dispatch (VNum (sint k)) args' ?st3 =
        (Inr (), emit ''error'' [VErr None ''Should be function''] ?st3)"
      using cb3 by (simp add: dispatch_def lookup_key map_of_delete_callback)
    show "effects (snd (onMessage (WArr (m' # ms')) (snd (onMessage (WArr (m # ms)) st)))) =
        effects st @ [Call f args, Emit ''error'' [VErr None ''Should be function'']]"
      unfolding 1 snd_conv om2 3 by (simp add: emit_def effect_def consume_def)
  }
qed

text \<open>
  The amended C5 in \<open>waiting\<close>, where handle 1 holds the application's callback \<open>f9\<close>:
  \<open>[1, {"hasOwnProperty": 2}]\<close> raises in \<open>liven\<close> and leaves handle 1 stored;
  then \<open>[1, null, 5]\<close> calls \<open>f9\<close>, and \<open>[1, null, 6]\<close> after it is answered by the
  \<open>error\<close> event. In \<open>offline\<close>, where there is no table, \<open>[1, null, 5]\<close> raises a
  TypeError.
\<close>

theorem stored_handle_is_single_shot_witness:
  "callbacks waiting = Some [(1, VFun (AppFn 9))] \<and>
   fst (onMessage (WArr [WNum 1, WObj [(''hasOwnProperty'', WNum 2)]]) waiting) = Inl TypeError \<and>
   callbacks (snd (onMessage (WArr [WNum 1, WObj [(''hasOwnProperty'', WNum 2)]]) waiting)) =
     Some [(1, VFun (AppFn 9))] \<and>
   effects (snd (onMessage (WArr [WNum 1, WObj [(''hasOwnProperty'', WNum 2)]]) waiting)) =
     effects waiting \<and>
   effects (snd (onMessage (WArr [WNum 1, WNull, WNum 6])
              (snd (onMessage (WArr [WNum 1, WNull, WNum 5]) waiting)))) =
     effects waiting @ [Call 9 [VNull, VNum 5], Emit ''error'' [VErr None ''Should be function'']] \<and>
   callbacks offline = None \<and>
   fst (onMessage (WArr [WNum 1, WNull, WNum 5]) offline) = Inl TypeError"
proof -
  have h: "callbacks waiting = Some [(1, VFun (AppFn 9))]" by (simp add: waiting_eq)
  have m: "map_of [(1 :: 32 word, VFun (AppFn 9))] 1 = Some (VFun (AppFn 9))" by simp
  have l0: "liven (getFunction (transport waiting)) (WArr [WNum 1, WObj [(''hasOwnProperty'', WNum 2)]])
              (objects waiting) (tags waiting) =
            (Inl TypeError, objects waiting @ [NArr [VNum 1]], 0)"
    by (simp add: waiting_eq run)
  have l1: "liven (getFunction (transport waiting)) (WArr [WNum 1, WNull, WNum 5])
              (objects waiting) (tags waiting) =
            (Inr (VRef 4), objects waiting @ [NArr [VNum 1, VNull, VNum 5]], 0)"
    by (simp add: waiting_eq run)
  have l2: "liven (getFunction (transport waiting)) (WArr [WNum 1, WNull, WNum 6])
              (objects waiting @ [NArr [VNum 1, VNull, VNum 5]]) 0 =
            (Inr (VRef 5), objects waiting @ [NArr [VNum 1, VNull, VNum 5], NArr [VNum 1, VNull, VNum 6]], 0)"
    by (simp add: waiting_eq run)
  have g1: "getType (objects waiting @ [NArr [VNum 1, VNull, VNum 5]]) (VRef 4) =
            IsArray [VNum (sint (1 :: 32 word)), VNull, VNum 5]"
    by (simp add: waiting_eq getType_def)
  have g2: "getType (objects waiting @ [NArr [VNum 1, VNull, VNum 5], NArr [VNum 1, VNull, VNum 6]]) (VRef 5) =
            IsArray [VNum (sint (1 :: 32 word)), VNull, VNum 6]"
    by (simp add: waiting_eq getType_def)
  have ho: "callbacks offline = None" by (simp add: offline_eq)
  have l3: "liven (getFunction (transport offline)) (WArr [WNum 1, WNull, WNum 5])
              (objects offline) (tags offline) =
            (Inr (VRef 3), objects offline @ [NArr [VNum 1, VNull, VNum 5]], 0)"
    by (simp add: offline_eq run)
  have g3: "getType (objects offline @ [NArr [VNum 1, VNull, VNum 5]]) (VRef 3) =
            IsArray [VNum (sint (1 :: 32 word)), VNull, VNum 5]"
    by (simp add: offline_eq getType_def)
  note r0 = stored_handle_is_single_shot [OF l0, where e = TypeError, THEN conjunct1, rule_format, OF refl]
  note r1 = stored_handle_is_single_shot [OF l1,
      where lv = "VRef 4" and k = 1 and args = "[VNull, VNum 5]" and f = 9
        and cb = "[(1, VFun (AppFn 9))]"
        and m' = "WNum 1" and ms' = "[WNull, WNum 6]" and lv' = "VRef 5"
        and h' = "objects waiting @ [NArr [VNum 1, VNull, VNum 5], NArr [VNum 1, VNull, VNum 6]]"
        and n' = 0 and args' = "[VNull, VNum 6]",
      THEN conjunct2, rule_format, OF conjI [OF refl g1],
      THEN conjunct2, rule_format, OF h,
      THEN conjunct2, THEN conjunct2, rule_format, OF conjI [OF m conjI [OF l2 g2]]]
  note r3 = stored_handle_is_single_shot [OF l3,
      where lv = "VRef 3" and k = 1 and args = "[VNull, VNum 5]",
      THEN conjunct2, rule_format, OF conjI [OF refl g3],
      THEN conjunct1, rule_format, OF ho]
  from r0 r1 r3 h ho show ?thesis by simp
qed

section \<open>Proxies\<close>

text \<open>
  C8, the claim as stated: a proxy called while the Peer is not Live calls its
  last argument with \<open>ENOTCONNECTED\<close> or drops the call, and no message is sent over
  any Transport. Two runs in which the Peer is not Live and a message is sent.

  In \<open>reconnecting\<close> its \<open>ready\<close> has been sent on Transport 8 and the reply has not
  arrived (the handshake callback is still stored under key 1). The proxy \<open>echo\<close>,
  installed in the earlier connection, called with \<open>(2, f9)\<close> stores \<open>f9\<close> under key 2
  and sends \<open>["echo", 2, {"$": 2}]\<close> on Transport 8; \<open>f9\<close> is not called.

  In \<open>live\<close> the message \<open>["add", 2, 3, {"$": 4}]\<close> comes in: the application's \<open>add\<close> is
  called with a proxy \<open>p\<close> for the peer's handle 4, which has captured Transport 7.
  Then \<open>disconnect()\<close>: no Transport is bound. Now \<open>api.echo(2, p)\<close> calls \<open>p\<close> with the
  \<open>ENOTCONNECTED\<close> error, and \<open>p\<close> sends \<open>[4, error]\<close> on Transport 7.
\<close>

theorem api_proxy_sends_while_not_live_counterexample:
  "transport reconnecting = Some 8 \<and>
   callbacks reconnecting = Some [(1, VFun OnReady)] \<and>
   own (api reconnecting) ''echo'' = VFun (ApiProxy ''echo'') \<and>
   fst (apply_fn (VFun (ApiProxy ''echo'')) [VNum 2, VFun (AppFn 9)] reconnecting) = Inr () \<and>
   effects (snd (apply_fn (VFun (ApiProxy ''echo'')) [VNum 2, VFun (AppFn 9)] reconnecting)) =
     effects reconnecting @ [Send 8 (WArr [WStr ''echo'', WNum 2, WObj [(''$'', WNum 2)]])] \<and>
   callbacks (snd (apply_fn (VFun (ApiProxy ''echo'')) [VNum 2, VFun (AppFn 9)] reconnecting)) =
     Some [(1, VFun OnReady), (2, VFun (AppFn 9))] \<and>
   effects (snd (onMessage (WArr [WStr ''add'', WNum 2, WNum 3, WObj [(''$'', WNum 4)]]) live)) =
     effects live @ [Call 0 [VNum 2, VNum 3, VFun (HandleProxy 0 (Some 7) (WNum 4))]] \<and>
   transport (snd (disconnect VUndef
       (snd (onMessage (WArr [WStr ''add'', WNum 2, WNum 3, WObj [(''$'', WNum 4)]]) live)))) = None \<and>
   own (api (snd (disconnect VUndef
       (snd (onMessage (WArr [WStr ''add'', WNum 2, WNum 3, WObj [(''$'', WNum 4)]]) live))))) ''echo'' =
     VFun (ApiProxy ''echo'') \<and>
   apply_fn (VFun (ApiProxy ''echo'')) [VNum 2, VFun (HandleProxy 0 (Some 7) (WNum 4))]
       (snd (disconnect VUndef
         (snd (onMessage (WArr [WStr ''add'', WNum 2, WNum 3, WObj [(''$'', WNum 4)]]) live)))) =
     (Inr (),
      effect (SendRaw 7 (WNum 4) [ENOTCONNECTED])
        (snd (disconnect VUndef
          (snd (onMessage (WArr [WStr ''add'', WNum 2, WNum 3, WObj [(''$'', WNum 4)]]) live)))))"
  by (simp add: reconnecting_eq live_eq run)

text \<open>
  \<open>_storeFunction\<close> does not touch \<open>this.transport\<close>, so \<open>freeze\<close> with it leaves the
  Transport bound.
\<close>

lemma freeze_find_store:
  fixes P :: "'s \<Rightarrow> 'a"
  shows "(\<And>v s. P (snd (sf v s)) = P s) \<Longrightarrow> P (store (snd (freeze_find sf h v path st))) = P (store st)"
    and "(\<And>v s. P (snd (sf v s)) = P s) \<Longrightarrow> P (store (snd (freeze_map sf h kids path st))) = P (store st)"
proof (induction sf h v path st and sf h kids path st rule: freeze_find_freeze_map.induct)
  case (1 sf h v path st)
  note eq = freeze_find.simps [of sf h v path st]
  let ?st1 = "st\<lparr>seen := seen st @ [v], paths := paths st @ [path]\<rparr>"
  show ?case
  proof (cases "indexOf (seen st) v")
    case (Some i)
    show ?thesis by (subst eq) (simp add: Some split: kind.splits)
  next
    case None
    show ?thesis
    proof (cases "getType h v")
      case (Primitive w0) show ?thesis by (subst eq) (simp add: Primitive)
    next
      case Dangling show ?thesis by (subst eq) (simp add: Dangling)
    next
      case (IsError c) show ?thesis by (subst eq) (simp add: IsError None Let_def)
    next
      case IsFunction
      obtain r s' where sf: "sf v (store st) = (r, s')" by (cases "sf v (store st)")
      from "1.prems" [of v "store st"] sf have "P s' = P (store st)" by simp
      then show ?thesis
        by (subst eq) (cases r; simp add: IsFunction None Let_def sf)
    next
      case (IsArray xs)
      obtain r st2 where fm: "freeze_map sf h (zip (map Index [0..<length xs]) xs) path ?st1 = (r, st2)"
        by (cases "freeze_map sf h (zip (map Index [0..<length xs]) xs) path ?st1")
      from "1.IH"(3) [OF IsArray None refl refl "1.prems"] fm
      have "P (store st2) = P (store st)" by simp
      then show ?thesis
        by (subst eq) (cases r; simp add: IsArray None Let_def fm)
    next
      case (IsObject kvs)
      show ?thesis
      proof (cases "is_function (own kvs ''map'') \<or> ''__proto__'' \<in> fst ` set kvs")
        case True
        then show ?thesis by (subst eq) (simp add: IsObject None Let_def)
      next
        case False
        obtain r st2 where fm: "freeze_map sf h (map (\<lambda>(k, y). (Name k, y)) kvs) path ?st1 = (r, st2)"
          by (cases "freeze_map sf h (map (\<lambda>(k, y). (Name k, y)) kvs) path ?st1")
        from "1.IH"(6) [OF IsObject None refl refl False "1.prems"] fm
        have "P (store st2) = P (store st)" by simp
        with False show ?thesis
          by (subst eq) (cases r; simp add: IsObject None Let_def fm)
      qed
    qed
  qed
next
  case (2 sf h path st)
  show ?case by simp
next
  case (3 sf h k x rest path st)
  obtain r st1 where f: "freeze_find sf h x (path @ [k]) st = (r, st1)"
    by (cases "freeze_find sf h x (path @ [k]) st")
  from "3.IH"(1) [OF "3.prems"] f have 1: "P (store st1) = P (store st)" by simp
  show ?case
  proof (cases r)
    case (Inl e)
    with f 1 show ?thesis by simp
  next
    case (Inr w)
    obtain r2 st2 where fm: "freeze_map sf h rest path st1 = (r2, st2)"
      by (cases "freeze_map sf h rest path st1")
    from "3.IH"(2) [OF f [symmetric] Inr "3.prems"] 1 fm
    have "P (store st2) = P (store st)" by simp
    with f Inr fm show ?thesis by (cases r2) simp_all
  qed
qed

lemma storeFunction_transport: "transport (snd (storeFunction fn st)) = transport st"
  by (simp add: storeFunction_def split: option.splits sum.splits)

lemma freeze_transport: "transport (snd (freeze storeFunction h v st)) = transport st"
proof -
  obtain r fs where f: "freeze_find storeFunction h v [] \<lparr>seen = [], paths = [], store = st\<rparr> = (r, fs)"
    by (cases "freeze_find storeFunction h v [] \<lparr>seen = [], paths = [], store = st\<rparr>")
  from freeze_find_store(1) [of transport storeFunction h v "[]" "\<lparr>seen = [], paths = [], store = st\<rparr>",
      OF storeFunction_transport] f
  show ?thesis by (simp add: freeze_def)
qed

text \<open>
  C8, amended: what decides is whether a Transport is bound to the Peer, not
  whether the Peer is Live. With none bound, a call of the proxy \<open>api[name]\<close> does this
  and nothing else: when its last argument is a function it calls that function
  with the \<open>ENOTCONNECTED\<close> error, otherwise it returns. The proxy itself sends
  nothing. When the last argument is an application function the only effect is
  that call. When it is a proxy of \<open>_getFunction\<close> that has captured Transport \<open>u\<close>,
  the call of it sends \<open>[key, error]\<close> on \<open>u\<close>: a message does go out on a Transport.
  \<open>ENOTCONNECTED\<close> is the Error object with that code.

  With Transport \<open>t\<close> bound, whatever the arguments are and whether or not the \<open>ready\<close>
  reply has come in: \<open>[name, args\<dots>]\<close> is frozen, which stores its functions, and
  unless \<open>freeze\<close> raises the result is sent on \<open>t\<close>; the last argument is not looked
  at. A call with one number and no callback sends \<open>[name, x]\<close>.
\<close>

theorem api_proxy_without_transport:
  "(transport st = None \<longrightarrow>
      apply_fn (VFun (ApiProxy name)) args st =
        (if args \<noteq> [] \<and> is_function (last args) then apply_fn (last args) [ENOTCONNECTED] st
         else (Inr (), st)) \<and>
      (args \<noteq> [] \<and> last args = VFun (AppFn n) \<longrightarrow>
         apply_fn (VFun (ApiProxy name)) args st = (Inr (), effect (Call n [ENOTCONNECTED]) st)) \<and>
      (args \<noteq> [] \<and> last args = VFun (HandleProxy i (Some u) key) \<longrightarrow>
         apply_fn (VFun (ApiProxy name)) args st =
           (Inr (), effect (SendRaw u key [ENOTCONNECTED]) st))) \<and>
   (transport st = Some t \<longrightarrow>
      apply_fn (VFun (ApiProxy name)) args st =
        (case freeze storeFunction (objects st @ [NArr (VStr name # args)]) (VRef (length (objects st)))
                (st\<lparr>objects := objects st @ [NArr (VStr name # args)]\<rparr>) of
           (Inl e, st') \<Rightarrow> (Inl e, st')
         | (Inr w, st') \<Rightarrow> (Inr (), effect (Send t w) st')) \<and>
      apply_fn (VFun (ApiProxy name)) [VNum x] st =
        (Inr (), effect (Send t (WArr [WStr name, WNum x]))
                   (st\<lparr>objects := objects st @ [NArr [VStr name, VNum x]]\<rparr>))) \<and>
   ENOTCONNECTED = VErr (Some ''ENOTCONNECTED'') ''ENOTCONNECTED: Remote is offline, try again later''"
proof (intro conjI impI)
  assume "transport st = None"
  then show "apply_fn (VFun (ApiProxy name)) args st =
        (if args \<noteq> [] \<and> is_function (last args) then apply_fn (last args) [ENOTCONNECTED] st
         else (Inr (), st))"
    by simp
next
  assume "transport st = None" and "args \<noteq> [] \<and> last args = VFun (AppFn n)"
  then show "apply_fn (VFun (ApiProxy name)) args st = (Inr (), effect (Call n [ENOTCONNECTED]) st)"
    by (simp add: is_function_def)
next
  assume "transport st = None" and "args \<noteq> [] \<and> last args = VFun (HandleProxy i (Some u) key)"
  then show "apply_fn (VFun (ApiProxy name)) args st =
      (Inr (), effect (SendRaw u key [ENOTCONNECTED]) st)"
    by (simp add: is_function_def)
next
  assume t: "transport st = Some t"
  let ?h = "objects st @ [NArr (VStr name # args)]"
  let ?st1 = "st\<lparr>objects := ?h\<rparr>"
  obtain r st' where f: "freeze storeFunction ?h (VRef (length (objects st))) ?st1 = (r, st')"
    by (cases "freeze storeFunction ?h (VRef (length (objects st))) ?st1")
  from freeze_transport [of ?h "VRef (length (objects st))" ?st1] f t
  have t': "transport st' = Some t" by simp
  from t have "apply_fn (VFun (ApiProxy name)) args st = send (VRef (length (objects st))) ?st1"
    by (simp add: new_array_def)
  also have "\<dots> = (case r of Inl e \<Rightarrow> (Inl e, st') | Inr w \<Rightarrow> (Inr (), effect (Send t w) st'))"
    by (cases r) (simp_all add: send_def f t')
  finally show "apply_fn (VFun (ApiProxy name)) args st =
        (case freeze storeFunction ?h (VRef (length (objects st))) ?st1 of
           (Inl e, st') \<Rightarrow> (Inl e, st')
         | (Inr w, st') \<Rightarrow> (Inr (), effect (Send t w) st'))"
    by (cases r) (simp_all add: f)
next
  assume t: "transport st = Some t"
  then show "apply_fn (VFun (ApiProxy name)) [VNum x] st =
        (Inr (), effect (Send t (WArr [WStr name, WNum x]))
                   (st\<lparr>objects := objects st @ [NArr [VStr name, VNum x]]\<rparr>))"
    by (simp add: new_array_def send_def freeze_def getType_def key_wire_def effect_def)
next
  show "ENOTCONNECTED = VErr (Some ''ENOTCONNECTED'') ''ENOTCONNECTED: Remote is offline, try again later''"
    by (simp add: ENOTCONNECTED_def)
qed

text \<open>
  The amended C8 in \<open>offline\<close>, where no Transport is bound: \<open>api.echo(2, f9)\<close> calls \<open>f9\<close>
  with the error, and \<open>api.echo(2, p)\<close>, \<open>p\<close> a proxy that has captured Transport 7,
  sends \<open>[4, error]\<close> on Transport 7. In \<open>live\<close>, where Transport 7 is bound:
  \<open>api.echo(2)\<close> sends \<open>["echo", 2]\<close> on it.
\<close>

theorem api_proxy_without_transport_witness:
  "transport offline = None \<and>
   apply_fn (VFun (ApiProxy ''echo'')) [VNum 2, VFun (AppFn 9)] offline =
     (Inr (), effect (Call 9 [ENOTCONNECTED]) offline) \<and>
   apply_fn (VFun (ApiProxy ''echo'')) [VNum 2, VFun (HandleProxy 0 (Some 7) (WNum 4))] offline =
     (Inr (), effect (SendRaw 7 (WNum 4) [ENOTCONNECTED]) offline) \<and>
   transport live = Some 7 \<and>
   apply_fn (VFun (ApiProxy ''echo'')) [VNum 2] live =
     (Inr (), effect (Send 7 (WArr [WStr ''echo'', WNum 2]))
                (live\<lparr>objects := objects live @ [NArr [VStr ''echo'', VNum 2]]\<rparr>))"
proof -
  have h: "transport offline = None" by (simp add: offline_eq)
  have l: "transport live = Some 7" by (simp add: live_eq)
  note r = api_proxy_without_transport [where st = offline and name = "''echo''", THEN conjunct1,
      rule_format, OF h]
  note r1 = r [where args = "[VNum 2, VFun (AppFn 9)]" and n = 9,
      THEN conjunct2, THEN conjunct1, rule_format]
  note r2 = r [where args = "[VNum 2, VFun (HandleProxy 0 (Some 7) (WNum 4))]"
        and i = 0 and u = 7 and key = "WNum 4",
      THEN conjunct2, THEN conjunct2, rule_format]
  note r3 = api_proxy_without_transport [where st = live and name = "''echo''" and t = 7 and x = 2,
      THEN conjunct2, THEN conjunct1, rule_format, OF l, THEN conjunct2]
  from r1 r2 r3 h l show ?thesis by simp
qed


section \<open>Errors in the dispatch and in the flush\<close>

text \<open>
  C9. The claim: for every inbound message, a \<open>ready\<close> reply whose \<open>names\<close> is not a
  sequence included, the handler emits an \<open>error\<close> event and returns normally. The
  code at the message \<open>[1, 42]\<close> in \<open>handshake_sent\<close>, where handle 1 is the handshake
  callback \<open>_onReady\<close>: \<open>_onReady(42)\<close> emits the \<open>error\<close> event with 42 and, having no
  \<open>return\<close> after it, goes on to \<open>names.forEach\<close>, which raises a TypeError out of
  \<open>_onMessage\<close>.
\<close>

theorem onMessage_raises_on_bad_ready_reply:
  "onMessage (WArr [WNum 1, WNum 42]) handshake_sent =
     (Inl TypeError,
      \<lparr>agent_api = [(''add'', VFun (AppFn 0))], api = [], transport = Some 7,
       callbacks = Some [], nextKey = Some 1,
       objects = [NArr [VStr ''ready'', VFun OnReady], NArr [VNum 1, VNum 42]],
       tags = 0,
       effects =
         [On 7 ''error'', On 7 ''message'', On 7 ''drain'',
          Send 7 (WArr [WStr ''ready'', WObj [(''$'', WNum 1)]]),
          Emit ''error'' [VNum 42]]\<rparr>)"
  by (simp add: handshake_sent_eq run)

text \<open>
  C3. The claim: \<open>disconnect(err)\<close> with a Transport bound calls every stored callback
  once, with \<open>err\<close> or the \<open>EDISCONNECT\<close> error, and then emits \<open>disconnect\<close>. The code at
  \<open>disconnect()\<close> in \<open>pending\<close>, where the table holds the handshake callback \<open>_onReady\<close>
  under key 1 and the application's callback \<open>f5\<close> under key 2: the flush calls
  \<open>_onReady\<close> with the \<open>EDISCONNECT\<close> error first; \<open>_onReady\<close> emits it as an \<open>error\<close> event
  and raises a TypeError at \<open>names.forEach\<close>. \<open>disconnect\<close> ends there: \<open>f5\<close> is never
  called, no \<open>disconnect\<close> event is emitted, and \<open>nextKey\<close> is left at 1.
\<close>

theorem disconnect_during_handshake_raises:
  "disconnect VUndef pending =
     (Inl TypeError,
      \<lparr>agent_api = [(''add'', VFun (AppFn 0))], api = [], transport = None,
       callbacks = None, nextKey = Some 1,
       objects = [NArr [VStr ''ready'', VFun OnReady], NArr [VStr ''ping'', VFun (AppFn 5)]],
       tags = 0,
       effects =
         [On 7 ''error'', On 7 ''message'', On 7 ''drain'',
          Send 7 (WArr [WStr ''ready'', WObj [(''$'', WNum 1)]]),
          Send 7 (WArr [WStr ''ping'', WObj [(''$'', WNum 2)]]),
          RemoveListener 7 ''error'', RemoveListener 7 ''message'', RemoveListener 7 ''drain'',
          Emit ''error'' [VErr (Some ''EDISCONNECT'') ''EDISCONNECT: Remote disconnected'']]\<rparr>)"
  by (simp add: pending_eq run)

section \<open>The round trip of \<open>freeze\<close> and \<open>liven\<close>\<close>

text \<open>
  A value with a cycle, a node reached twice, a byte blob and a key that starts
  with \<open>$\<close>: \<open>liven(freeze(v))\<close> builds a copy, nodes 2 and 3 for nodes 0 and 1, with
  the same shape and the same sharing.
\<close>

lemma roundtrip_example:
  "roundtrip sf gf
     [NObj [(''self'', VRef 0), (''$weird'', VNum 7), (''list'', VRef 1)],
      NArr [VRef 1, VRef 0, VBuf [1, 2]]] (VRef 0) s g =
   (Inr (VRef 2),
     [NObj [(''self'', VRef 0), (''$weird'', VNum 7), (''list'', VRef 1)],
      NArr [VRef 1, VRef 0, VBuf [1, 2]],
      NObj [(''self'', VRef 2), (''$weird'', VNum 7), (''list'', VRef 3)],
      NArr [VRef 3, VRef 2, VBuf [1, 2]]])"
  by (simp add: roundtrip_def run)

text \<open>
  C1. The claim: for every value \<open>v\<close> without procedures, built from primitives,
  blobs, sequences and string-keyed mappings, \<open>liven(freeze(v, s), g)\<close> is equal to \<open>v\<close>.
  The code at \<open>v = {"hasOwnProperty": 1}\<close>: \<open>freeze\<close> returns the same mapping, and
  \<open>liven\<close> raises a TypeError at \<open>value.hasOwnProperty("$")\<close>, where it calls the
  number 1.
\<close>

theorem roundtrip_raises_on_hasOwnProperty_key:
  "freeze sf [NObj [(''hasOwnProperty'', VNum 1)]] (VRef 0) s = (Inr (WObj [(''hasOwnProperty'', WNum 1)]), s) \<and>
   roundtrip sf gf [NObj [(''hasOwnProperty'', VNum 1)]] (VRef 0) s g =
     (Inl TypeError, [NObj [(''hasOwnProperty'', VNum 1)]])"
  by (simp add: roundtrip_def run)

end
